theory Spec2Isabelle
  imports Complex_Main "HOL-Library.Word" "HOL-Library.Sublist"
begin

section \<open>A terminal for a portfolio\<close>

text \<open>
  This theory models \<open>src/App.tsx\<close>, the one component of the portfolio site: a terminal
  that answers typed commands with blocks of text made from \<open>data/portfolio.json\<close>.

  \<^item> The formatting helpers \<open>makeClickableLink\<close>, \<open>generateSkillBar\<close> and
    \<open>formatFileList\<close>, and the table of commands that \<open>generateCommands\<close> builds, are
    functions of the portfolio document, which is a parameter. What can raise in the
    source (\<open>String.prototype.repeat\<close> on a negative count) returns an error value here.
  \<^item> The component \<open>App\<close> is a state machine: its React state, the calls of the
    asynchronous \<open>executeCommand\<close> that wait at their \<open>await\<close>, and the events that
    change them (editing the input line, submitting the form, a timer firing).
  \<^item> Instants are milliseconds since the epoch, passed in wherever the source reads the
    clock with \<open>new Date()\<close>. A session adds the renders to the state machine: the
    instant of the last render, which built the table that the handlers read, and the
    ticks of the clock, which render the component every second.
\<close>

section \<open>JavaScript strings\<close>

text \<open>
  A JavaScript string is a sequence of UTF-16 code units, and \<open>length\<close>, \<open>split\<close>,
  \<open>startsWith\<close> and \<open>repeat\<close> all count code units. ASCII literals are written
  with \<open>js\<close>; other characters are given by their code units.
\<close>

type_synonym jschar = "16 word"
type_synonym jsstring = "jschar list"

definition js :: "string \<Rightarrow> jsstring" where
  "js s = map (\<lambda>c. of_nat (of_char c)) s"

datatype jserror = RangeError | TypeError

text \<open>\<open>String.prototype.repeat\<close>: a negative count raises \<open>RangeError\<close>.\<close>

definition repeat :: "jsstring \<Rightarrow> int \<Rightarrow> jserror + jsstring" where
  "repeat s n = (if n < 0 then Inl RangeError else Inr (concat (replicate (nat n) s)))"

text \<open>\<open>Math.round\<close> rounds to the nearest integer, a tie towards \<open>+\<infinity>\<close>.\<close>

definition Math_round :: "rat \<Rightarrow> int" where
  "Math_round x = \<lfloor>x + 1 / 2\<rfloor>"

section \<open>Skill bars\<close>

text \<open>
  The glyph of a filled cell, as the literal stands in \<open>App.tsx\<close>: the three code units
  U+00E2, U+2013, U+02C6 (the UTF-8 bytes of the block U+2588 read in a one-byte code page).
  A blank cell is one space.
\<close>

definition filledGlyph :: jsstring where
  "filledGlyph = [0xE2, 0x2013, 0x2C6]"

definition blankGlyph :: jsstring where
  "blankGlyph = [0x20]"

text \<open>
  \<open>generateSkillBar\<close>. The level is an integer, so \<open>level / 100 * 20\<close> is a fifth of an
  integer: it is never within a tenth of a rounding boundary, and the exact quotient
  rounds as the double does.
\<close>

definition generateSkillBar :: "int \<Rightarrow> jserror + jsstring" where
  "generateSkillBar level =
     (let totalBars = 20;
          filledBars = Math_round ((of_int level / 100) * of_int totalBars)
      in case repeat filledGlyph filledBars of
           Inl e \<Rightarrow> Inl e
         | Inr filled \<Rightarrow>
             (case repeat blankGlyph (totalBars - filledBars) of
                Inl e \<Rightarrow> Inl e
              | Inr blank \<Rightarrow> Inr (filled @ blank)))"

text \<open>A run of \<open>n\<close> cells of one glyph.\<close>

definition cells :: "nat \<Rightarrow> jsstring \<Rightarrow> jsstring" where
  "cells n g = concat (replicate n g)"

section \<open>String operations\<close>

text \<open>
  The white space that \<open>trim\<close> strips: ECMAScript's WhiteSpace and LineTerminator code
  points, all of them single code units.
\<close>

definition isWhiteSpace :: "jschar \<Rightarrow> bool" where
  "isWhiteSpace c \<longleftrightarrow>
     c \<in> {0x9, 0xA, 0xB, 0xC, 0xD, 0x20, 0xA0, 0x1680, 0x2028, 0x2029, 0x202F, 0x205F, 0x3000, 0xFEFF}
     \<or> (0x2000 \<le> c \<and> c \<le> 0x200A)"

definition trim :: "jsstring \<Rightarrow> jsstring" where
  "trim s = rev (dropWhile isWhiteSpace (rev (dropWhile isWhiteSpace s)))"

text \<open>
  \<open>toLowerCase\<close> and \<open>toUpperCase\<close> on the letters of ASCII. The two functions are
  exact on strings of ASCII code units. The case mappings of the other Unicode letters
  are not modelled: such code units are left as they are, where the source maps some of
  them (the Kelvin sign U+212A to \<open>k\<close>, the sharp s to \<open>SS\<close>). No command name is reached
  from them here, so what is proved of a command name holds of the inputs that the model
  lower-cases to it.
\<close>

definition toLowerCase :: "jsstring \<Rightarrow> jsstring" where
  "toLowerCase s = map (\<lambda>c. if 0x41 \<le> c \<and> c \<le> 0x5A then c + 0x20 else c) s"

definition toUpperCase :: "jsstring \<Rightarrow> jsstring" where
  "toUpperCase s = map (\<lambda>c. if 0x61 \<le> c \<and> c \<le> 0x7A then c - 0x20 else c) s"

definition startsWith :: "jsstring \<Rightarrow> jsstring \<Rightarrow> bool" where
  "startsWith s p = prefix p s"

fun includesStr :: "jsstring \<Rightarrow> jsstring \<Rightarrow> bool" where
  "includesStr [] t = (t = [])"
| "includesStr (c # s) t = (prefix t (c # s) \<or> includesStr s t)"

text \<open>
  \<open>s.split(sep)\<close> for a separator that is not empty: the pieces between the occurrences of
  the separator, found from the left; there is always at least one piece.
\<close>

function split :: "jsstring \<Rightarrow> jsstring \<Rightarrow> jsstring list" where
  "split sep [] = [[]]"
| "split sep (c # s) =
     (if prefix sep (c # s) then [] # split sep (drop (length sep - 1) s)
      else (let r = split sep s in (c # hd r) # tl r))"
  by pat_completeness auto
termination
  by (relation "measure (\<lambda>(sep, s). length s)") auto


text \<open>The value of \<open>a || b\<close> for an optional string \<open>a\<close>: \<open>undefined\<close> and \<open>''\<close> are falsy.\<close>

definition orElse :: "jsstring option \<Rightarrow> jsstring \<Rightarrow> jsstring" where
  "orElse a b = (case a of None \<Rightarrow> b | Some t \<Rightarrow> if t = [] then b else t)"

section \<open>Links\<close>

definition makeClickableLink :: "jsstring \<Rightarrow> jsstring option \<Rightarrow> jsstring" where
  \<open>makeClickableLink url text =
     (if url = [] \<or> trim url = js ''#'' \<or> trim url = [] then orElse text url
      else
        (let displayText = orElse text url;
             href =
               (if \<not> startsWith url (js ''http://'') \<and> \<not> startsWith url (js ''https://'')
                     \<and> \<not> startsWith url (js ''mailto:'')
                then (if includesStr url (js ''@'') \<and> \<not> startsWith url (js ''mailto:'')
                      then js ''mailto:'' @ url
                      else js ''https://'' @ url)
                else url)
         in js ''<a href="'' @ href @ js ''" target="_blank" class="text-cyan-400 hover:underline">''
              @ displayText @ js ''</a>''))\<close>

section \<open>Kinds of url\<close>



section \<open>Portfolio data\<close>

text \<open>
  The shape of \<open>data/portfolio.json\<close>, as \<open>App.tsx\<close> reads it. The file itself is a
  parameter of the model. A skill level is a number; every other leaf is taken as the
  text that a template literal makes of it.
\<close>

record personal_info =
  personal_name :: jsstring
  personal_title :: jsstring
  personal_username :: jsstring
  personal_website :: jsstring
  personal_location :: jsstring
  personal_resumeUrl :: jsstring

record skill =
  skill_name :: jsstring
  skill_level :: int

record project =
  project_name :: jsstring
  project_description :: jsstring
  project_techStack :: jsstring
  project_github :: jsstring
  project_status :: jsstring

record education_info =
  edu_period :: jsstring
  edu_degree :: jsstring
  edu_university :: jsstring
  edu_gpa :: jsstring
  edu_coursework :: "jsstring list"
  edu_expectedGraduation :: jsstring

record contact_info =
  contact_email :: jsstring
  contact_linkedin :: jsstring
  contact_github :: jsstring
  contact_phone :: jsstring

record file_entry =
  file_name :: jsstring
  file_type :: jsstring
  file_permissions :: jsstring
  file_size :: jsstring
  file_date :: jsstring

record system_info =
  system_os :: jsstring
  system_host :: jsstring
  system_kernel :: jsstring
  system_uptime :: jsstring
  system_shell :: jsstring
  system_resolution :: jsstring
  system_terminal :: jsstring
  system_cpu :: jsstring
  system_memory :: jsstring
  system_disk :: jsstring
  system_projectsCompleted :: jsstring
  system_primaryLanguages :: jsstring
  system_frameworks :: jsstring
  system_databases :: jsstring
  system_tools :: jsstring

text \<open>\<open>skills\<close> is an object: its entries, in the order of \<open>Object.entries\<close>.\<close>

record portfolio =
  pd_personal :: personal_info
  pd_about :: "jsstring list"
  pd_skills :: "(jsstring \<times> skill list) list"
  pd_projects :: "project list"
  pd_education :: education_info
  pd_contact :: contact_info
  pd_files :: "file_entry list"
  pd_system :: system_info

section \<open>Numbers, padding and dates as text\<close>

fun digitsOf :: "nat \<Rightarrow> jsstring" where
  "digitsOf n = (if n < 10 then [0x30 + of_nat n] else digitsOf (n div 10) @ [0x30 + of_nat (n mod 10)])"

text \<open>The text of an integer in a template literal.\<close>

definition numberToString :: "int \<Rightarrow> jsstring" where
  "numberToString n = (if n < 0 then js ''-'' @ digitsOf (nat (- n)) else digitsOf (nat n))"

definition padEnd :: "nat \<Rightarrow> jsstring \<Rightarrow> jsstring" where
  "padEnd n s = s @ replicate (n - length s) 0x20"

definition padStart :: "nat \<Rightarrow> jschar \<Rightarrow> jsstring \<Rightarrow> jsstring" where
  "padStart n c s = replicate (n - length s) c @ s"

text \<open>\<open>s.replace(p, r)\<close> with a string pattern replaces the first occurrence only.\<close>

fun replace :: "jsstring \<Rightarrow> jsstring \<Rightarrow> jsstring \<Rightarrow> jsstring" where
  "replace p r [] = (if p = [] then r else [])"
| "replace p r (c # s) = (if prefix p (c # s) then r @ drop (length p) (c # s) else c # replace p r s)"

text \<open>
  \<open>new Date().toString()\<close> for the instant \<open>t\<close>, in milliseconds since the epoch, on a
  host whose time zone is UTC: \<open>Thu Jan 01 1970 00:00:00 GMT+0000 (Coordinated Universal Time)\<close>.
  The civil date is computed from the day number in the proleptic Gregorian calendar.
\<close>

definition dayNames :: "jsstring list" where
  "dayNames = [js ''Sun'', js ''Mon'', js ''Tue'', js ''Wed'', js ''Thu'', js ''Fri'', js ''Sat'']"

definition monthNames :: "jsstring list" where
  "monthNames = [js ''Jan'', js ''Feb'', js ''Mar'', js ''Apr'', js ''May'', js ''Jun'',
                 js ''Jul'', js ''Aug'', js ''Sep'', js ''Oct'', js ''Nov'', js ''Dec'']"

definition civilFromDays :: "nat \<Rightarrow> nat \<times> nat \<times> nat" where
  "civilFromDays days =
     (let z = days + 719468;
          era = z div 146097;
          doe = z mod 146097;
          yoe = (doe - doe div 1460 + doe div 36524 - doe div 146096) div 365;
          doy = doe - (365 * yoe + yoe div 4 - yoe div 100);
          mp = (5 * doy + 2) div 153;
          d = doy - (153 * mp + 2) div 5 + 1;
          m = (if mp < 10 then mp + 3 else mp - 9);
          y = yoe + era * 400 + (if m \<le> 2 then 1 else 0)
      in (y, m, d))"

definition Date_toString :: "nat \<Rightarrow> jsstring" where
  "Date_toString t =
     (let secs = t div 1000;
          days = secs div 86400;
          (y, m, d) = civilFromDays days
      in dayNames ! ((days + 4) mod 7) @ js '' '' @ monthNames ! (m - 1) @ js '' ''
           @ padStart 2 0x30 (digitsOf d) @ js '' '' @ padStart 4 0x30 (digitsOf y) @ js '' ''
           @ padStart 2 0x30 (digitsOf (secs mod 86400 div 3600)) @ js '':''
           @ padStart 2 0x30 (digitsOf (secs mod 3600 div 60)) @ js '':''
           @ padStart 2 0x30 (digitsOf (secs mod 60))
           @ js '' GMT+0000 (Coordinated Universal Time)'')"

section \<open>The command table\<close>

record cmd =
  cmd_description :: jsstring
  cmd_output :: "jsstring list"

definition formatFileList :: "portfolio \<Rightarrow> jsstring list" where
  "formatFileList pd =
     js ''total 8'' #
     map (\<lambda>file.
            (let typeIndicator = (if file_type file = js ''directory'' then js ''/'' else [])
             in file_permissions file @ js ''  2 '' @ personal_username (pd_personal pd) @ js '' ''
                  @ personal_username (pd_personal pd) @ js '' '' @ file_size file @ js '' ''
                  @ file_date file @ js '' '' @ file_name file @ typeIndicator))
         (pd_files pd)"

text \<open>
  The \<open>skills\<close> output. A level whose bar cannot be drawn raises out of \<open>generateSkillBar\<close>,
  and the error leaves \<open>generateCommands\<close>.
\<close>

fun skillRows :: "nat \<Rightarrow> nat \<Rightarrow> skill list \<Rightarrow> jserror + jsstring list" where
  "skillRows n index [] = Inr []"
| "skillRows n index (skill # rest) =
     (let isLast = (index + 1 = n);
          pre = (if isLast then js ''  '' @ [0xE2, 0x201D, 0x201D, 0xE2, 0x201D, 0x20AC, 0xE2, 0x201D, 0x20AC]
                 else js ''  '' @ [0xE2, 0x201D, 0x153, 0xE2, 0x201D, 0x20AC, 0xE2, 0x201D, 0x20AC])
      in case generateSkillBar (skill_level skill) of
           Inl e \<Rightarrow> Inl e
         | Inr bar \<Rightarrow>
             (case skillRows n (index + 1) rest of
                Inl e \<Rightarrow> Inl e
              | Inr rows \<Rightarrow>
                  Inr ((pre @ js '' '' @ padEnd 20 (skill_name skill) @ js '' '' @ bar @ js '' ''
                          @ numberToString (skill_level skill) @ js ''%'') # rows)))"

fun skillCategories :: "(jsstring \<times> skill list) list \<Rightarrow> jsstring list \<Rightarrow> jserror + jsstring list" where
  "skillCategories [] result = Inr result"
| "skillCategories ((category, skills) # rest) result =
     (case skillRows (length skills) 0 skills of
        Inl e \<Rightarrow> Inl e
      | Inr rows \<Rightarrow> skillCategories rest (result @ [category @ js '':''] @ rows @ [[]]))"

definition skillsOutput :: "portfolio \<Rightarrow> jserror + jsstring list" where
  "skillsOutput pd = skillCategories (pd_skills pd) [js ''Technical Skills:'', []]"

section \<open>Project blocks and the wrapping of descriptions\<close>

definition baseIndent :: jsstring where
  "baseIndent = js ''   ''"

definition firstLineItemPrefix :: jsstring where
  "firstLineItemPrefix = [0xE2, 0x201D, 0x153, 0xE2, 0x201D, 0x20AC, 0xE2, 0x201D, 0x20AC] @ js '' ''"

definition subsequentLineItemPrefix :: jsstring where
  "subsequentLineItemPrefix = [0xE2, 0x201D, 0x201A] @ js ''   ''"

definition lastLineItemPrefix :: jsstring where
  "lastLineItemPrefix = [0xE2, 0x201D, 0x201D, 0xE2, 0x201D, 0x20AC, 0xE2, 0x201D, 0x20AC] @ js '' ''"

definition descriptionLabel :: jsstring where
  "descriptionLabel = js ''Description: ''"

definition descriptionContinuationIndent :: jsstring where
  "descriptionContinuationIndent = cells (length descriptionLabel) (js '' '')"

definition textContentWidth :: nat where
  "textContentWidth = 75"

text \<open>
  The state of the loops is the \<open>result\<close> array and the flag
  \<open>isFirstLineOfOverallDescriptionOutput\<close>. \<open>pushLine\<close> is the push of a line buffer, which
  the source writes out three times: with the label on the first line of a description,
  with the continuation indent on the others.
\<close>

type_synonym wrapState = "jsstring list \<times> bool"

definition pushLine :: "jsstring \<Rightarrow> wrapState \<Rightarrow> wrapState" where
  "pushLine lineBuffer st =
     (case st of (result, isFirst) \<Rightarrow>
        if isFirst
        then (result @ [baseIndent @ firstLineItemPrefix @ descriptionLabel @ lineBuffer], False)
        else (result @ [baseIndent @ subsequentLineItemPrefix @ descriptionContinuationIndent @ lineBuffer],
              isFirst))"

text \<open>The \<open>for\<close> loop over the words of one segment, from the line buffer it has so far.\<close>

fun wrapWords :: "jsstring list \<Rightarrow> jsstring \<Rightarrow> wrapState \<Rightarrow> jsstring \<times> wrapState" where
  "wrapWords [] lineBuffer st = (lineBuffer, st)"
| "wrapWords (word # words) lineBuffer st =
     (let potentialLine = (if lineBuffer = [] then word else lineBuffer @ js '' '' @ word)
      in if length potentialLine \<le> textContentWidth then wrapWords words potentialLine st
         else
           (let st1 = (if lineBuffer \<noteq> [] then pushLine lineBuffer st else st);
                lineBuffer1 = word
            in if length word > textContentWidth \<and> lineBuffer1 \<noteq> []
               then wrapWords words [] (pushLine lineBuffer1 st1)
               else wrapWords words lineBuffer1 st1))"

text \<open>The body of \<open>segments.forEach\<close>.\<close>

definition wrapSegment :: "wrapState \<Rightarrow> jsstring \<Rightarrow> wrapState" where
  "wrapSegment st segment =
     (case st of (result, isFirst) \<Rightarrow>
        if trim segment = [] \<and> \<not> isFirst
        then (result @ [baseIndent @ subsequentLineItemPrefix], isFirst)
        else
          (case wrapWords (split (js '' '') segment) [] st of (lineBuffer, st1) \<Rightarrow>
             if lineBuffer \<noteq> [] then pushLine lineBuffer st1 else st1))"

text \<open>
  The lines that one description adds to \<open>result\<close>. The separator of the segments is the
  two characters backslash and \<open>n\<close>.
\<close>

definition pushDescription :: "jsstring \<Rightarrow> jsstring list \<Rightarrow> jsstring list" where
  "pushDescription actualDescription result =
     (if actualDescription \<noteq> [] \<and> trim actualDescription \<noteq> []
      then
        (let segments = split ([0x5C] @ js ''n'') actualDescription
         in fst (foldl wrapSegment (result, True) segments))
      else result @ [baseIndent @ firstLineItemPrefix @ descriptionLabel])"

fun projectBlocks :: "nat \<Rightarrow> project list \<Rightarrow> jsstring list \<Rightarrow> jsstring list" where
  "projectBlocks index [] result = result"
| "projectBlocks index (project # rest) result =
     (let r1 = result @ [numberToString (int index + 1) @ js ''. '' @ project_name project];
          r2 = pushDescription (project_description project) r1;
          r3 = r2 @ [baseIndent @ firstLineItemPrefix @ js ''Tech Stack: '' @ project_techStack project];
          r4 = r3 @ [baseIndent @ firstLineItemPrefix @ js ''GitHub: ''
                       @ makeClickableLink (project_github project) None];
          r5 = r4 @ [baseIndent @ lastLineItemPrefix @ js ''Status: '' @ project_status project];
          r6 = r5 @ [[]]
      in projectBlocks (index + 1) rest r6)"

definition projectsOutput :: "portfolio \<Rightarrow> jsstring list" where
  "projectsOutput pd = projectBlocks 0 (pd_projects pd) [js ''Projects Portfolio:'', []]"

section \<open>The other outputs\<close>

fun courseRows :: "nat \<Rightarrow> nat \<Rightarrow> jsstring list \<Rightarrow> jsstring list" where
  "courseRows n index [] = []"
| "courseRows n index (course # rest) =
     (let isLast = (index + 1 = n);
          pre = (if isLast then [0xE2, 0x201D, 0x201A] @ js ''   ''
                 @ [0xE2, 0x201D, 0x201D, 0xE2, 0x201D, 0x20AC, 0xE2, 0x201D, 0x20AC]
                 else [0xE2, 0x201D, 0x201A] @ js ''   ''
                 @ [0xE2, 0x201D, 0x153, 0xE2, 0x201D, 0x20AC, 0xE2, 0x201D, 0x20AC])
      in (pre @ js '' '' @ course) # courseRows n (index + 1) rest)"

definition educationOutput :: "portfolio \<Rightarrow> jsstring list" where
  "educationOutput pd =
     (let edu = pd_education pd
      in [js ''Education:'',
          [],
          edu_period edu @ js '' | '' @ edu_degree edu,
          [0xE2, 0x201D, 0x153, 0xE2, 0x201D, 0x20AC, 0xE2, 0x201D, 0x20AC] @ js '' University: ''
            @ edu_university edu,
          [0xE2, 0x201D, 0x153, 0xE2, 0x201D, 0x20AC, 0xE2, 0x201D, 0x20AC] @ js '' GPA: '' @ edu_gpa edu,
          [0xE2, 0x201D, 0x153, 0xE2, 0x201D, 0x20AC, 0xE2, 0x201D, 0x20AC] @ js '' Relevant Coursework:'']
         @ courseRows (length (edu_coursework edu)) 0 (edu_coursework edu)
         @ [[0xE2, 0x201D, 0x201D, 0xE2, 0x201D, 0x20AC, 0xE2, 0x201D, 0x20AC]
            @ js '' Expected Graduation: '' @ edu_expectedGraduation edu,
            []])"

definition contactOutput :: "portfolio \<Rightarrow> jsstring list" where
  "contactOutput pd =
     [js ''Contact Information:'',
      [],
      [0x11F, 0x178, 0x201C, 0xA7] @ js '' Email:    ''
            @ makeClickableLink (contact_email (pd_contact pd)) None,
      [0x11F, 0x178, 0x201D, 0x2014] @ js '' LinkedIn: ''
            @ makeClickableLink (contact_linkedin (pd_contact pd)) None,
      [0x11F, 0x178, 0x2122] @ js '' GitHub:   ''
            @ makeClickableLink (contact_github (pd_contact pd)) None,
      [0x11F, 0x178, 0x152] @ js '' Website:  ''
            @ makeClickableLink (personal_website (pd_personal pd)) None,
      [0x11F, 0x178, 0x201C, 0xB1] @ js '' Phone:    '' @ contact_phone (pd_contact pd),
      [0x11F, 0x178, 0x201C] @ js '' Location: '' @ personal_location (pd_personal pd),
      [],
      js ''Feel free to reach out for opportunities, collaborations,'',
      js ''or just to have a chat about technology!'']"

definition resumeOutput :: "portfolio \<Rightarrow> jsstring list" where
  "resumeOutput pd =
     [[0xE2, 0x2022, 0xE2, 0x2022, 0xE2, 0x2022, 0xE2, 0x2022, 0xE2, 0x2022, 0xE2, 0x2022,
           0xE2, 0x2022, 0xE2, 0x2022, 0xE2, 0x2022, 0xE2, 0x2022, 0xE2, 0x2022, 0xE2, 0x2022,
           0xE2, 0x2022, 0xE2, 0x2022, 0xE2, 0x2022, 0xE2, 0x2022, 0xE2, 0x2022, 0xE2, 0x2022,
           0xE2, 0x2022, 0xE2, 0x2022, 0xE2, 0x2022, 0xE2, 0x2022, 0xE2, 0x2022, 0xE2, 0x2022,
           0xE2, 0x2022, 0xE2, 0x2022, 0xE2, 0x2022, 0xE2, 0x2022, 0xE2, 0x2022, 0xE2, 0x2022,
           0xE2, 0x2022, 0xE2, 0x2022, 0xE2, 0x2022, 0xE2, 0x2022, 0xE2, 0x2022, 0xE2, 0x2022,
           0xE2, 0x2022, 0xE2, 0x2022, 0xE2, 0x2022, 0xE2, 0x2022, 0xE2, 0x2022, 0xE2, 0x2022,
           0xE2, 0x2022, 0xE2, 0x2022, 0xE2, 0x2022, 0xE2, 0x2022, 0xE2, 0x2022, 0xE2, 0x2022,
           0xE2, 0x2022, 0xE2, 0x2022, 0xE2, 0x2022, 0xE2, 0x2022, 0xE2, 0x2022, 0xE2, 0x2022,
           0xE2, 0x2022, 0xE2, 0x2022, 0xE2, 0x2022, 0xE2, 0x2022, 0xE2, 0x2022],
      js ''                        '' @ toUpperCase (personal_name (pd_personal pd))
        @ js ''                          '',
      js ''                '' @ personal_title (pd_personal pd) @ js ''                   '',
      [0xE2, 0x2022, 0xE2, 0x2022, 0xE2, 0x2022, 0xE2, 0x2022, 0xE2, 0x2022, 0xE2, 0x2022,
           0xE2, 0x2022, 0xE2, 0x2022, 0xE2, 0x2022, 0xE2, 0x2022, 0xE2, 0x2022, 0xE2, 0x2022,
           0xE2, 0x2022, 0xE2, 0x2022, 0xE2, 0x2022, 0xE2, 0x2022, 0xE2, 0x2022, 0xE2, 0x2022,
           0xE2, 0x2022, 0xE2, 0x2022, 0xE2, 0x2022, 0xE2, 0x2022, 0xE2, 0x2022, 0xE2, 0x2022,
           0xE2, 0x2022, 0xE2, 0x2022, 0xE2, 0x2022, 0xE2, 0x2022, 0xE2, 0x2022, 0xE2, 0x2022,
           0xE2, 0x2022, 0xE2, 0x2022, 0xE2, 0x2022, 0xE2, 0x2022, 0xE2, 0x2022, 0xE2, 0x2022,
           0xE2, 0x2022, 0xE2, 0x2022, 0xE2, 0x2022, 0xE2, 0x2022, 0xE2, 0x2022, 0xE2, 0x2022,
           0xE2, 0x2022, 0xE2, 0x2022, 0xE2, 0x2022, 0xE2, 0x2022, 0xE2, 0x2022, 0xE2, 0x2022,
           0xE2, 0x2022, 0xE2, 0x2022, 0xE2, 0x2022, 0xE2, 0x2022, 0xE2, 0x2022, 0xE2, 0x2022,
           0xE2, 0x2022, 0xE2, 0x2022, 0xE2, 0x2022, 0xE2, 0x2022, 0xE2, 0x2022],
      [],
      [0x11F, 0x178, 0x201C, 0xA7] @ js '' '' @ makeClickableLink (contact_email (pd_contact pd)) None
        @ js ''  '' @ [0x11F, 0x178, 0x201C, 0xB1] @ js '' '' @ contact_phone (pd_contact pd),
      [0x11F, 0x178, 0x201D, 0x2014] @ js '' ''
        @ makeClickableLink (contact_linkedin (pd_contact pd)) None @ js ''  '' @ [0x11F, 0x178, 0x2122]
        @ js '' '' @ makeClickableLink (contact_github (pd_contact pd)) None,
      [],
      [0x11F, 0x178, 0x201C] @ js '' '' @ edu_degree (pd_education pd) @ js '' (''
        @ edu_period (pd_education pd) @ js '') - GPA: '' @ edu_gpa (pd_education pd),
      [0x11F, 0x178, 0x203A, 0xA0, 0xEF, 0xB8] @ js '' '' @ system_primaryLanguages (pd_system pd),
      [],
      [0x11F, 0x178, 0x201C, 0x201E] @ js '' Download PDF: ''
        @ makeClickableLink (personal_resumeUrl (pd_personal pd)) None,
      [],
      js ''Use '' @ [0x22] @ js ''education'' @ [0x22] @ js '', '' @ [0x22] @ js ''skills'' @ [0x22] @ js '' for details!'']"

definition neofetchOutput :: "portfolio \<Rightarrow> jsstring list" where
  "neofetchOutput pd =
     [js ''<pre class='' @ [0x22] @ js ''terminal-ascii-art'' @ [0x22] @ js ''>'' @ [0xA]
        @ js ''                   -`                     <span class='' @ [0x22] @ js ''text-green-400''
        @ [0x22] @ js ''>'' @ personal_username (pd_personal pd) @ js ''</span><span class='' @ [0x22]
        @ js ''text-white'' @ [0x22] @ js ''>@</span><span class='' @ [0x22] @ js ''text-green-400''
        @ [0x22] @ js ''>portfolio</span>'' @ [0xA]
        @ js ''                  .o+`                    <span class='' @ [0x22] @ js ''text-white''
        @ [0x22] @ js ''>-----------------</span>'' @ [0xA]
        @ js ''                 `ooo/                    <span class='' @ [0x22] @ js ''text-blue-400''
        @ [0x22] @ js ''>OS:</span> '' @ system_os (pd_system pd) @ [0xA]
        @ js ''                `+oooo:                   <span class='' @ [0x22] @ js ''text-blue-400''
        @ [0x22] @ js ''>Host:</span> '' @ system_host (pd_system pd) @ [0xA]
        @ js ''               `+oooooo:                  <span class='' @ [0x22] @ js ''text-blue-400''
        @ [0x22] @ js ''>Kernel:</span> '' @ system_kernel (pd_system pd) @ [0xA]
        @ js ''               -+oooooo+:                 <span class='' @ [0x22] @ js ''text-blue-400''
        @ [0x22] @ js ''>Uptime:</span> '' @ system_uptime (pd_system pd) @ [0xA]
        @ js ''             `/:-:++oooo+:                <span class='' @ [0x22] @ js ''text-blue-400''
        @ [0x22] @ js ''>Shell:</span> '' @ system_shell (pd_system pd) @ [0xA]
        @ js ''            `/++++/+++++++:               <span class='' @ [0x22] @ js ''text-blue-400''
        @ [0x22] @ js ''>Resolution:</span> '' @ system_resolution (pd_system pd) @ [0xA]
        @ js ''           `/++++++++++++++:              <span class='' @ [0x22] @ js ''text-blue-400''
        @ [0x22] @ js ''>Terminal:</span> '' @ system_terminal (pd_system pd) @ [0xA]
        @ js ''          `/+++ooooooooo+++/              <span class='' @ [0x22] @ js ''text-blue-400''
        @ [0x22] @ js ''>CPU:</span> '' @ system_cpu (pd_system pd) @ [0xA]
        @ js ''         ./ooosssso++osssssso+`           <span class='' @ [0x22] @ js ''text-blue-400''
        @ [0x22] @ js ''>Memory:</span> '' @ system_memory (pd_system pd) @ [0xA]
        @ js ''        .oossssso-````/ossssss+`          <span class='' @ [0x22] @ js ''text-blue-400''
        @ [0x22] @ js ''>Disk:</span> '' @ system_disk (pd_system pd) @ [0xA]
        @ js ''       -osssssso.      :ssssssso.         <span class='' @ [0x22] @ js ''text-blue-400''
        @ [0x22] @ js ''>Skills:</span> <span class='' @ [0x22] @ js ''text-red-400'' @ [0x22] @ js ''>''
        @ [0xE2, 0x2013, 0x2C6] @ js ''</span><span class='' @ [0x22] @ js ''text-yellow-400'' @ [0x22]
        @ js ''>'' @ [0xE2, 0x2013, 0x2C6] @ js ''</span><span class='' @ [0x22] @ js ''text-green-400''
        @ [0x22] @ js ''>'' @ [0xE2, 0x2013, 0x2C6] @ js ''</span><span class='' @ [0x22]
        @ js ''text-cyan-400'' @ [0x22] @ js ''>'' @ [0xE2, 0x2013, 0x2C6] @ js ''</span><span class=''
        @ [0x22] @ js ''text-blue-400'' @ [0x22] @ js ''>'' @ [0xE2, 0x2013, 0x2C6]
        @ js ''</span><span class='' @ [0x22] @ js ''text-purple-400'' @ [0x22] @ js ''>''
        @ [0xE2, 0x2013, 0x2C6] @ js ''</span><span class='' @ [0x22] @ js ''text-pink-400'' @ [0x22]
        @ js ''>'' @ [0xE2, 0x2013, 0x2C6] @ js ''</span><span class='' @ [0x22] @ js ''text-white''
        @ [0x22] @ js ''>'' @ [0xE2, 0x2013, 0x2C6] @ js ''</span>'' @ [0xA]
        @ js ''      :osssssss/        osssso+++.        <span class='' @ [0x22] @ js ''text-blue-400''
        @ [0x22] @ js ''>Projects:</span> <span class='' @ [0x22] @ js ''text-green-400'' @ [0x22]
        @ js ''>'' @ system_projectsCompleted (pd_system pd) @ js '' completed</span>'' @ [0xA]
        @ js ''     /ossssssss/        +ssssooo/-        <span class='' @ [0x22] @ js ''text-blue-400''
        @ [0x22] @ js ''>Languages:</span> '' @ system_primaryLanguages (pd_system pd) @ [0xA]
        @ js ''   `/ossssso+/:-        -:/+osssso+-      <span class='' @ [0x22] @ js ''text-blue-400''
        @ [0x22] @ js ''>Frameworks:</span> '' @ system_frameworks (pd_system pd) @ [0xA]
        @ js ''  `+sso+:-`                 `.-/+oso:     <span class='' @ [0x22] @ js ''text-blue-400''
        @ [0x22] @ js ''>Database:</span> '' @ system_databases (pd_system pd) @ [0xA]
        @ js '' `++:.                           `-/+/    <span class='' @ [0x22] @ js ''text-blue-400''
        @ [0x22] @ js ''>Tools:</span> '' @ system_tools (pd_system pd) @ [0xA]
        @ js '' .`                                 `/    '' @ [0xA] @ js ''</pre>'']"

definition helpOutput :: "jsstring list" where
  "helpOutput =
     [js ''Available commands:'',
      js ''  help          - Show this help message'',
      js ''  about         - Learn about me'',
      js ''  skills        - View my technical skills'',
      js ''  projects      - See my projects'',
      js ''  education     - See my educational background'',
      js ''  contact       - Get my contact information'',
      js ''  resume        - View resume and download link'',
      js ''  download      - Download resume PDF'',
      js ''  clear         - Clear the terminal'',
      js ''  whoami        - Display current user'',
      js ''  ls            - List directory contents'',
      js ''  pwd           - Print working directory'',
      js ''  date          - Show current date and time'',
      js ''  neofetch      - Display system information'']"

text \<open>
  The object that \<open>generateCommands\<close> returns has these twelve own properties. The \<open>date\<close>
  output is made where the object is made: \<open>now\<close> is the instant of that call.
\<close>

record registry =
  reg_help :: cmd
  reg_about :: cmd
  reg_skills :: cmd
  reg_projects :: cmd
  reg_education :: cmd
  reg_contact :: cmd
  reg_resume :: cmd
  reg_whoami :: cmd
  reg_pwd :: cmd
  reg_ls :: cmd
  reg_date :: cmd
  reg_neofetch :: cmd

definition generateCommands :: "portfolio \<Rightarrow> nat \<Rightarrow> jserror + registry" where
  "generateCommands pd now =
     (case skillsOutput pd of
        Inl e \<Rightarrow> Inl e
      | Inr skillLines \<Rightarrow>
          Inr \<lparr>reg_help = \<lparr>cmd_description = js ''Show available commands'', cmd_output = helpOutput\<rparr>,
               reg_about = \<lparr>cmd_description = js ''Learn about me'',
                  cmd_output = [personal_name (pd_personal pd) @ js '' - '' @ personal_title (pd_personal pd), []] @ pd_about pd\<rparr>,
               reg_skills = \<lparr>cmd_description = js ''View technical skills'', cmd_output = skillLines\<rparr>,
               reg_projects = \<lparr>cmd_description = js ''See my projects'', cmd_output = projectsOutput pd\<rparr>,
               reg_education = \<lparr>cmd_description = js ''See educational background'',
                  cmd_output = educationOutput pd\<rparr>,
               reg_contact = \<lparr>cmd_description = js ''Get contact information'', cmd_output = contactOutput pd\<rparr>,
               reg_resume = \<lparr>cmd_description = js ''View resume and download link'',
                  cmd_output = resumeOutput pd\<rparr>,
               reg_whoami = \<lparr>cmd_description = js ''Display current user'',
                  cmd_output = [personal_username (pd_personal pd)]\<rparr>,
               reg_pwd = \<lparr>cmd_description = js ''Print working directory'',
                  cmd_output = [js ''/home/'' @ personal_username (pd_personal pd) @ js ''/portfolio'']\<rparr>,
               reg_ls = \<lparr>cmd_description = js ''List directory contents'', cmd_output = formatFileList pd\<rparr>,
               reg_date = \<lparr>cmd_description = js ''Show current date and time'',
                  cmd_output = [Date_toString now]\<rparr>,
               reg_neofetch = \<lparr>cmd_description = js ''Display system information'',
                  cmd_output = neofetchOutput pd\<rparr>\<rparr>)"

section \<open>Looking a command up\<close>

text \<open>
  \<open>COMMANDS[command]\<close> reads a property of an object literal: one of its twelve own
  properties, or else a property that every object inherits from \<open>Object.prototype\<close>
  (a function, or the prototype itself for \<open>__proto__\<close>: truthy, and without an
  \<open>output\<close>), or else \<open>undefined\<close>.
\<close>

datatype property = Own cmd | Inherited | Absent

definition objectPrototypeKeys :: "jsstring list" where
  "objectPrototypeKeys =
     [js ''constructor'', js ''__defineGetter__'', js ''__defineSetter__'', js ''hasOwnProperty'',
      js ''__lookupGetter__'', js ''__lookupSetter__'', js ''isPrototypeOf'',
      js ''propertyIsEnumerable'', js ''toString'', js ''valueOf'', js ''__proto__'',
      js ''toLocaleString'']"

definition commandNames :: "jsstring list" where
  "commandNames =
     [js ''help'', js ''about'', js ''skills'', js ''projects'', js ''education'', js ''contact'',
      js ''resume'', js ''whoami'', js ''pwd'', js ''ls'', js ''date'', js ''neofetch'']"

definition getProperty :: "registry \<Rightarrow> jsstring \<Rightarrow> property" where
  "getProperty COMMANDS key =
     (if key = js ''help'' then Own (reg_help COMMANDS)
      else if key = js ''about'' then Own (reg_about COMMANDS)
      else if key = js ''skills'' then Own (reg_skills COMMANDS)
      else if key = js ''projects'' then Own (reg_projects COMMANDS)
      else if key = js ''education'' then Own (reg_education COMMANDS)
      else if key = js ''contact'' then Own (reg_contact COMMANDS)
      else if key = js ''resume'' then Own (reg_resume COMMANDS)
      else if key = js ''whoami'' then Own (reg_whoami COMMANDS)
      else if key = js ''pwd'' then Own (reg_pwd COMMANDS)
      else if key = js ''ls'' then Own (reg_ls COMMANDS)
      else if key = js ''date'' then Own (reg_date COMMANDS)
      else if key = js ''neofetch'' then Own (reg_neofetch COMMANDS)
      else if key \<in> set objectPrototypeKeys then Inherited
      else Absent)"

section \<open>The terminal session\<close>

text \<open>
  An entry of the history (the interface \<open>Command\<close>). Its output is typed as a string
  array, but \<open>executeCommand\<close> can store \<open>undefined\<close> there: that is \<open>None\<close>.
\<close>

record history_entry =
  entry_input :: jsstring
  entry_output :: "jsstring list option"
  entry_timestamp :: nat

text \<open>
  The state of the component: the three pieces of React state, the calls of
  \<open>executeCommand\<close> that are suspended at their \<open>await\<close> (the input and the output each
  will record, oldest first), and the downloads requested (address and file name).
\<close>

record app_state =
  commands :: "history_entry list"
  currentInput :: jsstring
  isTyping :: bool
  suspended :: "(jsstring \<times> jsstring list option) list"
  downloads :: "(jsstring \<times> jsstring) list"

definition welcomeCommand :: "portfolio \<Rightarrow> nat \<Rightarrow> history_entry" where
  "welcomeCommand pd now =
     \<lparr>entry_input = [],
      entry_output = Some
        [js ''Welcome to '' @ personal_name (pd_personal pd) @ [0x27] @ js ''s Portfolio Terminal'',
         [],
         js ''<pre class='' @ [0x22] @ js ''terminal-ascii-art'' @ [0x22] @ js ''>''
          @ [0xA, 0xE2, 0x2013, 0x2C6, 0xE2, 0x2013, 0x2C6, 0xE2, 0x2013, 0x2C6, 0xE2, 0x2013,
             0x2C6, 0xE2, 0x2013, 0x2C6, 0xE2, 0x2013, 0x2C6, 0xE2, 0x2013, 0x2C6, 0xE2, 0x2013,
             0x2C6, 0xE2, 0x2022, 0x2014, 0xE2, 0x2013, 0x2C6, 0xE2, 0x2013, 0x2C6, 0xE2,
             0x2013, 0x2C6, 0xE2, 0x2013, 0x2C6, 0xE2, 0x2013, 0x2C6, 0xE2, 0x2013, 0x2C6, 0xE2,
             0x2013, 0x2C6, 0xE2, 0x2022, 0x2014, 0xE2, 0x2013, 0x2C6, 0xE2, 0x2013, 0x2C6,
             0xE2, 0x2013, 0x2C6, 0xE2, 0x2013, 0x2C6, 0xE2, 0x2013, 0x2C6, 0xE2, 0x2013, 0x2C6,
             0xE2, 0x2022, 0x2014]
          @ js '' '' @ [0xE2, 0x2013, 0x2C6, 0xE2, 0x2013, 0x2C6, 0xE2, 0x2013, 0x2C6, 0xE2, 0x2022, 0x2014]
          @ js ''   ''
          @ [0xE2, 0x2013, 0x2C6, 0xE2, 0x2013, 0x2C6, 0xE2, 0x2013, 0x2C6, 0xE2, 0x2022,
             0x2014, 0xE2, 0x2013, 0x2C6, 0xE2, 0x2013, 0x2C6, 0xE2, 0x2022, 0x2014, 0xE2,
             0x2013, 0x2C6, 0xE2, 0x2013, 0x2C6, 0xE2, 0x2013, 0x2C6, 0xE2, 0x2022, 0x2014]
          @ js ''   '' @ [0xE2, 0x2013, 0x2C6, 0xE2, 0x2013, 0x2C6, 0xE2, 0x2022, 0x2014] @ js '' ''
          @ [0xE2, 0x2013, 0x2C6, 0xE2, 0x2013, 0x2C6, 0xE2, 0x2013, 0x2C6, 0xE2, 0x2013, 0x2C6,
             0xE2, 0x2013, 0x2C6, 0xE2, 0x2022, 0x2014]
          @ js '' '' @ [0xE2, 0x2013, 0x2C6, 0xE2, 0x2013, 0x2C6, 0xE2, 0x2022, 0x2014] @ js ''      ''
          @ [0xA, 0xE2, 0x2022, 0x161, 0xE2, 0x2022, 0xE2, 0x2022, 0xE2, 0x2013, 0x2C6, 0xE2,
             0x2013, 0x2C6, 0xE2, 0x2022, 0x201D, 0xE2, 0x2022, 0xE2, 0x2022, 0xE2, 0x2022,
             0xE2, 0x2013, 0x2C6, 0xE2, 0x2013, 0x2C6, 0xE2, 0x2022, 0x201D, 0xE2, 0x2022, 0xE2,
             0x2022, 0xE2, 0x2022, 0xE2, 0x2022, 0xE2, 0x2022, 0xE2, 0x2013, 0x2C6, 0xE2,
             0x2013, 0x2C6, 0xE2, 0x2022, 0x201D, 0xE2, 0x2022, 0xE2, 0x2022, 0xE2, 0x2013,
             0x2C6, 0xE2, 0x2013, 0x2C6, 0xE2, 0x2022, 0x2014, 0xE2, 0x2013, 0x2C6, 0xE2,
             0x2013, 0x2C6, 0xE2, 0x2013, 0x2C6, 0xE2, 0x2013, 0x2C6, 0xE2, 0x2022, 0x2014]
          @ js '' ''
          @ [0xE2, 0x2013, 0x2C6, 0xE2, 0x2013, 0x2C6, 0xE2, 0x2013, 0x2C6, 0xE2, 0x2013, 0x2C6,
             0xE2, 0x2022, 0x2018, 0xE2, 0x2013, 0x2C6, 0xE2, 0x2013, 0x2C6, 0xE2, 0x2022,
             0x2018, 0xE2, 0x2013, 0x2C6, 0xE2, 0x2013, 0x2C6, 0xE2, 0x2013, 0x2C6, 0xE2,
             0x2013, 0x2C6, 0xE2, 0x2022, 0x2014]
          @ js ''  ''
          @ [0xE2, 0x2013, 0x2C6, 0xE2, 0x2013, 0x2C6, 0xE2, 0x2022, 0x2018, 0xE2, 0x2013,
             0x2C6, 0xE2, 0x2013, 0x2C6, 0xE2, 0x2022, 0x201D, 0xE2, 0x2022, 0xE2, 0x2022, 0xE2,
             0x2013, 0x2C6, 0xE2, 0x2013, 0x2C6, 0xE2, 0x2022, 0x2014, 0xE2, 0x2013, 0x2C6,
             0xE2, 0x2013, 0x2C6, 0xE2, 0x2022, 0x2018]
          @ js ''      '' @ [0xA] @ js ''   ''
          @ [0xE2, 0x2013, 0x2C6, 0xE2, 0x2013, 0x2C6, 0xE2, 0x2022, 0x2018] @ js ''   ''
          @ [0xE2, 0x2013, 0x2C6, 0xE2, 0x2013, 0x2C6, 0xE2, 0x2013, 0x2C6, 0xE2, 0x2013, 0x2C6,
             0xE2, 0x2013, 0x2C6, 0xE2, 0x2022, 0x2014]
          @ js ''  ''
          @ [0xE2, 0x2013, 0x2C6, 0xE2, 0x2013, 0x2C6, 0xE2, 0x2013, 0x2C6, 0xE2, 0x2013, 0x2C6,
             0xE2, 0x2013, 0x2C6, 0xE2, 0x2013, 0x2C6, 0xE2, 0x2022, 0x201D, 0xE2, 0x2022, 0xE2,
             0x2013, 0x2C6, 0xE2, 0x2013, 0x2C6, 0xE2, 0x2022, 0x201D, 0xE2, 0x2013, 0x2C6,
             0xE2, 0x2013, 0x2C6, 0xE2, 0x2013, 0x2C6, 0xE2, 0x2013, 0x2C6, 0xE2, 0x2022,
             0x201D, 0xE2, 0x2013, 0x2C6, 0xE2, 0x2013, 0x2C6, 0xE2, 0x2022, 0x2018, 0xE2,
             0x2013, 0x2C6, 0xE2, 0x2013, 0x2C6, 0xE2, 0x2022, 0x2018, 0xE2, 0x2013, 0x2C6,
             0xE2, 0x2013, 0x2C6, 0xE2, 0x2022, 0x201D, 0xE2, 0x2013, 0x2C6, 0xE2, 0x2013,
             0x2C6, 0xE2, 0x2022, 0x2014]
          @ js '' ''
          @ [0xE2, 0x2013, 0x2C6, 0xE2, 0x2013, 0x2C6, 0xE2, 0x2022, 0x2018, 0xE2, 0x2013,
             0x2C6, 0xE2, 0x2013, 0x2C6, 0xE2, 0x2013, 0x2C6, 0xE2, 0x2013, 0x2C6, 0xE2, 0x2013,
             0x2C6, 0xE2, 0x2013, 0x2C6, 0xE2, 0x2013, 0x2C6, 0xE2, 0x2022, 0x2018, 0xE2,
             0x2013, 0x2C6, 0xE2, 0x2013, 0x2C6, 0xE2, 0x2022, 0x2018]
          @ js ''      '' @ [0xA] @ js ''   ''
          @ [0xE2, 0x2013, 0x2C6, 0xE2, 0x2013, 0x2C6, 0xE2, 0x2022, 0x2018] @ js ''   ''
          @ [0xE2, 0x2013, 0x2C6, 0xE2, 0x2013, 0x2C6, 0xE2, 0x2022, 0x201D, 0xE2, 0x2022, 0xE2,
             0x2022, 0xE2, 0x2022]
          @ js ''  ''
          @ [0xE2, 0x2013, 0x2C6, 0xE2, 0x2013, 0x2C6, 0xE2, 0x2022, 0x201D, 0xE2, 0x2022, 0xE2,
             0x2022, 0xE2, 0x2013, 0x2C6, 0xE2, 0x2013, 0x2C6, 0xE2, 0x2022, 0x2014, 0xE2,
             0x2013, 0x2C6, 0xE2, 0x2013, 0x2C6, 0xE2, 0x2022, 0x2018, 0xE2, 0x2022, 0x161,
             0xE2, 0x2013, 0x2C6, 0xE2, 0x2013, 0x2C6, 0xE2, 0x2022, 0x201D, 0xE2, 0x2022, 0xE2,
             0x2013, 0x2C6, 0xE2, 0x2013, 0x2C6, 0xE2, 0x2022, 0x2018, 0xE2, 0x2013, 0x2C6,
             0xE2, 0x2013, 0x2C6, 0xE2, 0x2022, 0x2018, 0xE2, 0x2013, 0x2C6, 0xE2, 0x2013,
             0x2C6, 0xE2, 0x2022, 0x2018, 0xE2, 0x2022, 0x161, 0xE2, 0x2013, 0x2C6, 0xE2,
             0x2013, 0x2C6, 0xE2, 0x2022, 0x2014, 0xE2, 0x2013, 0x2C6, 0xE2, 0x2013, 0x2C6,
             0xE2, 0x2022, 0x2018, 0xE2, 0x2013, 0x2C6, 0xE2, 0x2013, 0x2C6, 0xE2, 0x2022,
             0x201D, 0xE2, 0x2022, 0xE2, 0x2022, 0xE2, 0x2013, 0x2C6, 0xE2, 0x2013, 0x2C6, 0xE2,
             0x2022, 0x2018, 0xE2, 0x2013, 0x2C6, 0xE2, 0x2013, 0x2C6, 0xE2, 0x2022, 0x2018]
          @ js ''      '' @ [0xA] @ js ''   ''
          @ [0xE2, 0x2013, 0x2C6, 0xE2, 0x2013, 0x2C6, 0xE2, 0x2022, 0x2018] @ js ''   ''
          @ [0xE2, 0x2013, 0x2C6, 0xE2, 0x2013, 0x2C6, 0xE2, 0x2013, 0x2C6, 0xE2, 0x2013, 0x2C6,
             0xE2, 0x2013, 0x2C6, 0xE2, 0x2013, 0x2C6, 0xE2, 0x2013, 0x2C6, 0xE2, 0x2022,
             0x2014, 0xE2, 0x2013, 0x2C6, 0xE2, 0x2013, 0x2C6, 0xE2, 0x2022, 0x2018]
          @ js ''  ''
          @ [0xE2, 0x2013, 0x2C6, 0xE2, 0x2013, 0x2C6, 0xE2, 0x2022, 0x2018, 0xE2, 0x2013,
             0x2C6, 0xE2, 0x2013, 0x2C6, 0xE2, 0x2022, 0x2018]
          @ js '' '' @ [0xE2, 0x2022, 0x161, 0xE2, 0x2022, 0xE2, 0x2022] @ js '' ''
          @ [0xE2, 0x2013, 0x2C6, 0xE2, 0x2013, 0x2C6, 0xE2, 0x2022, 0x2018, 0xE2, 0x2013,
             0x2C6, 0xE2, 0x2013, 0x2C6, 0xE2, 0x2022, 0x2018, 0xE2, 0x2013, 0x2C6, 0xE2,
             0x2013, 0x2C6, 0xE2, 0x2022, 0x2018]
          @ js '' ''
          @ [0xE2, 0x2022, 0x161, 0xE2, 0x2013, 0x2C6, 0xE2, 0x2013, 0x2C6, 0xE2, 0x2013, 0x2C6,
             0xE2, 0x2013, 0x2C6, 0xE2, 0x2022, 0x2018, 0xE2, 0x2013, 0x2C6, 0xE2, 0x2013,
             0x2C6, 0xE2, 0x2022, 0x2018]
          @ js ''  ''
          @ [0xE2, 0x2013, 0x2C6, 0xE2, 0x2013, 0x2C6, 0xE2, 0x2022, 0x2018, 0xE2, 0x2013,
             0x2C6, 0xE2, 0x2013, 0x2C6, 0xE2, 0x2013, 0x2C6, 0xE2, 0x2013, 0x2C6, 0xE2, 0x2013,
             0x2C6, 0xE2, 0x2013, 0x2C6, 0xE2, 0x2013, 0x2C6, 0xE2, 0x2022, 0x2014]
          @ js '' '' @ [0xA] @ js ''   '' @ [0xE2, 0x2022, 0x161, 0xE2, 0x2022, 0xE2, 0x2022] @ js ''   ''
          @ [0xE2, 0x2022, 0x161, 0xE2, 0x2022, 0xE2, 0x2022, 0xE2, 0x2022, 0xE2, 0x2022, 0xE2,
             0x2022, 0xE2, 0x2022, 0xE2, 0x2022, 0xE2, 0x2022, 0x161, 0xE2, 0x2022, 0xE2,
             0x2022]
          @ js ''  ''
          @ [0xE2, 0x2022, 0x161, 0xE2, 0x2022, 0xE2, 0x2022, 0xE2, 0x2022, 0x161, 0xE2, 0x2022,
             0xE2, 0x2022]
          @ js ''     ''
          @ [0xE2, 0x2022, 0x161, 0xE2, 0x2022, 0xE2, 0x2022, 0xE2, 0x2022, 0x161, 0xE2, 0x2022,
             0xE2, 0x2022, 0xE2, 0x2022, 0x161, 0xE2, 0x2022, 0xE2, 0x2022]
          @ js ''  ''
          @ [0xE2, 0x2022, 0x161, 0xE2, 0x2022, 0xE2, 0x2022, 0xE2, 0x2022, 0xE2, 0x2022, 0xE2,
             0x2022, 0x161, 0xE2, 0x2022, 0xE2, 0x2022]
          @ js ''  ''
          @ [0xE2, 0x2022, 0x161, 0xE2, 0x2022, 0xE2, 0x2022, 0xE2, 0x2022, 0x161, 0xE2, 0x2022,
             0xE2, 0x2022, 0xE2, 0x2022, 0xE2, 0x2022, 0xE2, 0x2022, 0xE2, 0x2022, 0xE2, 0x2022]
          @ js '' '' @ [0xA] @ js ''</pre>'',
         [],
         js ''Type '' @ [0x22] @ js ''help'' @ [0x22] @ js '' to get started or '' @ [0x22]
          @ js ''about'' @ [0x22] @ js '' to learn more about me.''],
      entry_timestamp = now\<rparr>"

text \<open>The state once the component is mounted and the welcome effect has run.\<close>

definition mounted :: "portfolio \<Rightarrow> nat \<Rightarrow> app_state" where
  "mounted pd now =
     \<lparr>commands = [welcomeCommand pd now], currentInput = [], isTyping = False,
      suspended = [], downloads = []\<rparr>"

text \<open>The command name: the first piece of the trimmed, lower-cased input, split at spaces.\<close>

definition commandOf :: "jsstring \<Rightarrow> jsstring" where
  "commandOf input = (let trimmedInput = toLowerCase (trim input) in hd (split (js '' '') trimmedInput))"

definition downloadOutput :: "portfolio \<Rightarrow> jsstring list" where
  "downloadOutput pd =
     [js ''Initiating download...'',
      [],
      [0x11F, 0x178, 0x201C, 0x201E] @ js '' Downloading: ''
            @ replace (js '' '') (js ''_'') (personal_name (pd_personal pd)) @ js ''_Resume.pdf'',
      [0x11F, 0x178, 0x201D, 0x2014] @ js '' Source: ''
            @ makeClickableLink (personal_resumeUrl (pd_personal pd)) None,
      [],
      js ''If download doesn'' @ [0x27] @ js ''t start automatically, click the link above.'']"

text \<open>
  \<open>await\<close>: the call is suspended with the input and the output that it will record.
\<close>

definition await :: "jsstring \<Rightarrow> jsstring list option \<Rightarrow> app_state \<Rightarrow> app_state" where
  "await input out s = s\<lparr>suspended := suspended s @ [(input, out)]\<rparr>"

text \<open>
  \<open>executeCommand\<close> up to its \<open>await\<close>, or to its \<open>return\<close> for \<open>clear\<close>. The state
  updates of one call are batched, so that \<open>clear\<close> leaves \<open>isTyping\<close> false. The
  output \<open>None\<close> is \<open>undefined\<close>, the \<open>output\<close> of an inherited property.
\<close>

definition executeCommand :: "portfolio \<Rightarrow> registry \<Rightarrow> jsstring \<Rightarrow> app_state \<Rightarrow> app_state" where
  "executeCommand pd COMMANDS input s =
     (let command = commandOf input;
          s1 = s\<lparr>isTyping := True\<rparr>
      in if command = [] then await input (Some [[]]) s1
         else if command = js ''clear''
         then s1\<lparr>commands := [], currentInput := [], isTyping := False\<rparr>
         else if command = js ''resume''
         then await input (Some (cmd_output (reg_resume COMMANDS))) s1
         else if command = js ''download''
         then await input (Some (downloadOutput pd))
                (s1\<lparr>downloads := downloads s1 @
                     [(personal_resumeUrl (pd_personal pd),
                       replace (js '' '') (js ''_'') (personal_name (pd_personal pd)) @ js ''_Resume.pdf'')]\<rparr>)
         else
           (case getProperty COMMANDS command of
              Own c \<Rightarrow> await input (Some (cmd_output c)) s1
            | Inherited \<Rightarrow> await input None s1
            | Absent \<Rightarrow>
                await input
                  (Some [js ''Command not found: '' @ command,
                         js ''Type '' @ [0x22] @ js ''help'' @ [0x22] @ js '' to see available commands.''])
                  s1))"

text \<open>
  The rest of \<open>executeCommand\<close>, after the delay of 300 ms, for the oldest suspended call;
  \<open>now\<close> is the instant of \<open>new Date()\<close>.
\<close>

definition executeCommand_continue :: "nat \<Rightarrow> app_state \<Rightarrow> app_state" where
  "executeCommand_continue now s =
     (case suspended s of
        [] \<Rightarrow> s
      | (input, out) # rest \<Rightarrow>
          s\<lparr>commands := commands s @
                [\<lparr>entry_input = input, entry_output = out, entry_timestamp = now\<rparr>],
            currentInput := [], isTyping := False, suspended := rest\<rparr>)"

definition handleSubmit :: "portfolio \<Rightarrow> registry \<Rightarrow> app_state \<Rightarrow> app_state" where
  "handleSubmit pd COMMANDS s =
     (if trim (currentInput s) \<noteq> [] \<and> \<not> isTyping s
      then executeCommand pd COMMANDS (currentInput s) s
      else s)"

text \<open>
  What can happen to the component: the user edits the input line (which is disabled
  while \<open>isTyping\<close>), the form is submitted (\<open>COMMANDS\<close> is the table of the render that
  made the handler; here it is any table, and the section on renders and the clock says
  which one it is at each instant), or the timer of the oldest suspended call fires.
\<close>

datatype event = Change jsstring | Submit registry | TimerFires nat

fun step :: "portfolio \<Rightarrow> app_state \<Rightarrow> event \<Rightarrow> app_state" where
  "step pd s (Change v) = (if isTyping s then s else s\<lparr>currentInput := v\<rparr>)"
| "step pd s (Submit COMMANDS) = handleSubmit pd COMMANDS s"
| "step pd s (TimerFires now) = executeCommand_continue now s"

definition run :: "portfolio \<Rightarrow> app_state \<Rightarrow> event list \<Rightarrow> app_state" where
  "run pd s evs = foldl (step pd) s evs"

text \<open>
  Rendering the history calls \<open>command.output.map\<close> on every entry, which raises
  \<open>TypeError\<close> on an entry whose output is \<open>undefined\<close>.
\<close>

fun renderHistory :: "history_entry list \<Rightarrow> jserror + jsstring list list" where
  "renderHistory [] = Inr []"
| "renderHistory (c # cs) =
     (case entry_output c of
        None \<Rightarrow> Inl TypeError
      | Some ls \<Rightarrow> (case renderHistory cs of Inl e \<Rightarrow> Inl e | Inr r \<Rightarrow> Inr (ls # r)))"

section \<open>Renders and the clock\<close>

text \<open>
  \<open>COMMANDS\<close> is built in the body of the component, so by every render, and the
  handlers of a render read the table of that render. The component renders when its
  state changes: after an edit, after a submit that it accepts, when a suspended call
  ends, and every 1000 ms from the mount, when the interval of the clock effect sets
  \<open>currentTime\<close>. A session keeps, with the state of the component, the instant of the
  last render, the instant of the next tick of the clock, the instant at which the timer
  of the suspended call is due, and the instant that the session has reached.
\<close>

record session =
  app :: app_state
  renderedAt :: nat
  nextTick :: nat
  timerDue :: "nat option"
  clock :: nat

definition startSession :: "portfolio \<Rightarrow> nat \<Rightarrow> session" where
  "startSession pd t0 =
     \<lparr>app = mounted pd t0, renderedAt = t0, nextTick = t0 + 1000, timerDue = None, clock = t0\<rparr>"

datatype action = Edit jsstring | Enter | Timer | Tick

text \<open>
  What happens at the instant \<open>t\<close>. The result is \<open>None\<close> when the action cannot happen
  at that instant: time does not go back, no tick of the clock and no timer is passed
  over, a tick comes at its instant, and the timer of a call fires 300 ms after the
  submit that suspended it. A submit runs the handler of the last render, with the table
  that this render built; there is no handler where \<open>generateCommands\<close> raised.
\<close>

definition timedStep :: "portfolio \<Rightarrow> session \<Rightarrow> nat \<times> action \<Rightarrow> session option" where
  "timedStep pd ss ev =
     (case ev of (t, a) \<Rightarrow>
        if t < clock ss \<or> nextTick ss < t
             \<or> (case timerDue ss of None \<Rightarrow> False | Some due \<Rightarrow> due < t)
        then None
        else
          (case a of
             Tick \<Rightarrow>
               if t = nextTick ss
               then Some (ss\<lparr>renderedAt := t, nextTick := t + 1000, clock := t\<rparr>)
               else None
           | Timer \<Rightarrow>
               if timerDue ss = Some t
               then Some (ss\<lparr>app := executeCommand_continue t (app ss), renderedAt := t,
                             timerDue := None, clock := t\<rparr>)
               else None
           | Edit v \<Rightarrow>
               (let s' = step pd (app ss) (Change v)
                in Some (ss\<lparr>app := s',
                            renderedAt := (if s' = app ss then renderedAt ss else t),
                            clock := t\<rparr>))
           | Enter \<Rightarrow>
               (case generateCommands pd (renderedAt ss) of
                  Inl e \<Rightarrow> None
                | Inr COMMANDS \<Rightarrow>
                    (let s' = step pd (app ss) (Submit COMMANDS)
                     in Some (ss\<lparr>app := s',
                                 renderedAt := (if s' = app ss then renderedAt ss else t),
                                 timerDue :=
                                   (if length (suspended (app ss)) < length (suspended s')
                                    then Some (t + 300) else timerDue ss),
                                 clock := t\<rparr>)))))"

fun timedRun :: "portfolio \<Rightarrow> session \<Rightarrow> (nat \<times> action) list \<Rightarrow> session option" where
  "timedRun pd ss [] = Some ss"
| "timedRun pd ss (ev # evs) =
     (case timedStep pd ss ev of None \<Rightarrow> None | Some ss' \<Rightarrow> timedRun pd ss' evs)"

section \<open>A sample portfolio\<close>

text \<open>A small portfolio document, for evaluating the definitions on concrete data.\<close>

definition samplePortfolio :: portfolio where
  "samplePortfolio =
     \<lparr>pd_personal =
        \<lparr>personal_name = js ''Ada Lovelace'', personal_title = js ''Engineer'',
         personal_username = js ''ada'', personal_website = js ''ada.example.org'',
         personal_location = js ''London'', personal_resumeUrl = js ''#''\<rparr>,
      pd_about = [js ''I write programs for engines.''],
      pd_skills =
        [(js ''Languages'',
          [\<lparr>skill_name = js ''Isabelle'', skill_level = 90\<rparr>,
           \<lparr>skill_name = js ''TypeScript'', skill_level = 75\<rparr>])],
      pd_projects =
        [\<lparr>project_name = js ''Engine'', project_description = js ''Notes on the analytical engine'',
          project_techStack = js ''Brass'', project_github = js ''github.com/ada/engine'',
          project_status = js ''Done''\<rparr>],
      pd_education =
        \<lparr>edu_period = js ''1830-1835'', edu_degree = js ''Mathematics'',
         edu_university = js ''Home'', edu_gpa = js ''4.0'', edu_coursework = [js ''Analysis''],
         edu_expectedGraduation = js ''1835''\<rparr>,
      pd_contact =
        \<lparr>contact_email = js ''ada@example.org'', contact_linkedin = js ''#'',
         contact_github = js ''github.com/ada'', contact_phone = js ''none''\<rparr>,
      pd_files =
        [\<lparr>file_name = js ''notes'', file_type = js ''directory'', file_permissions = js ''drwxr-xr-x'',
          file_size = js ''4096'', file_date = js ''Jan 1'' \<rparr>],
      pd_system =
        \<lparr>system_os = js ''Engine OS'', system_host = js ''mill'', system_kernel = js ''1.0'',
         system_uptime = js ''1 day'', system_shell = js ''cards'', system_resolution = js ''none'',
         system_terminal = js ''paper'', system_cpu = js ''gears'', system_memory = js ''store'',
         system_disk = js ''cards'', system_projectsCompleted = js ''1'',
         system_primaryLanguages = js ''Isabelle'', system_frameworks = js ''none'',
         system_databases = js ''none'', system_tools = js ''pen''\<rparr>\<rparr>"

section \<open>Invariants of the session\<close>

text \<open>At most one call is suspended, and \<open>isTyping\<close> says whether one is.\<close>

definition singleFlight :: "app_state \<Rightarrow> bool" where
  "singleFlight s \<longleftrightarrow> length (suspended s) \<le> 1 \<and> isTyping s = (suspended s \<noteq> [])"

text \<open>
  Every suspended call, and every entry of the history other than the welcome entry, has
  an input that is not blank.
\<close>

definition inputsNotBlank :: "history_entry \<Rightarrow> app_state \<Rightarrow> bool" where
  "inputsNotBlank welcome s \<longleftrightarrow>
     (\<forall>p \<in> set (suspended s). trim (fst p) \<noteq> [])
     \<and> (\<forall>e \<in> set (commands s). e = welcome \<or> trim (entry_input e) \<noteq> [])"

section \<open>Reading the wrapped lines back\<close>




section \<open>Properties of the skill bar\<close>

lemma Math_round_fifth: "Math_round ((of_int level / 100) * of_int 20) = (2 * level + 5) div 10"
proof -
  have "(of_int level / 100) * of_int 20 + 1 / 2 = (of_int (2 * level + 5) :: rat) / of_int 10"
    by simp
  then have "Math_round ((of_int level / 100) * of_int 20) = \<lfloor>(of_int (2 * level + 5) :: rat) / of_int 10\<rfloor>"
    unfolding Math_round_def by presburger
  then show ?thesis
    by (simp only: floor_divide_of_int_eq)
qed

lemma generateSkillBar_eq:
  "generateSkillBar level =
     (let k = (2 * level + 5) div 10
      in if k < 0 \<or> 20 < k then Inl RangeError
         else Inr (cells (nat k) filledGlyph @ cells (nat (20 - k)) blankGlyph))"
  unfolding generateSkillBar_def Let_def Math_round_fifth
  by (simp add: repeat_def cells_def)

text \<open>
  Claim C4, as written: for every integer level, also below 0 and above 100,
  \<open>generateSkillBar\<close> returns a string and raises no error. It does not:
  at level 105 the blank run has count \<open>-1\<close>, at level \<open>-5\<close> the filled run has,
  and \<open>repeat\<close> raises \<open>RangeError\<close>.
\<close>

theorem generateSkillBar_raises_counterexample:
  "generateSkillBar 105 = Inl RangeError \<and> generateSkillBar (- 5) = Inl RangeError"
  by (simp add: generateSkillBar_eq)

text \<open>
  Claim C4, amended: \<open>generateSkillBar\<close> returns a string exactly for the integer levels
  from \<open>-2\<close> to 102, so for every level from 0 to 100; it does not clamp, and for every
  other level \<open>repeat\<close> raises \<open>RangeError\<close>.
\<close>

theorem generateSkillBar_returns_iff:
  "(\<exists>bar. generateSkillBar level = Inr bar) \<longleftrightarrow> - 2 \<le> level \<and> level \<le> 102"
proof -
  have "(0 \<le> (2 * level + 5) div 10 \<and> (2 * level + 5) div 10 \<le> 20) \<longleftrightarrow> - 2 \<le> level \<and> level \<le> 102"
    by presburger
  then show ?thesis
    by (auto simp add: generateSkillBar_eq Let_def)
qed

theorem generateSkillBar_returns_iff_witness:
  "(\<exists>bar. generateSkillBar 102 = Inr bar) \<and> \<not> (\<exists>bar. generateSkillBar 103 = Inr bar)"
  using generateSkillBar_returns_iff [of 102] generateSkillBar_returns_iff [of 103]
  by simp

text \<open>
  Claim C5: for every integer level from 0 to 100 the bar has exactly 20 cells, of which
  \<open>round (level / 100 * 20)\<close> are filled and the others, after them, blank; level 0 gives
  20 blank cells, level 100 gives 20 filled cells, level 50 gives 10 filled cells and then
  10 blank cells.
\<close>

theorem generateSkillBar_twenty_cells:
  assumes "0 \<le> level" and "level \<le> 100"
  shows "(\<exists>k. int k = Math_round ((of_int level / 100) * 20) \<and> k \<le> 20 \<and> k + (20 - k) = 20
            \<and> generateSkillBar level = Inr (cells k filledGlyph @ cells (20 - k) blankGlyph))
         \<and> generateSkillBar 0 = Inr (cells 20 blankGlyph)
         \<and> generateSkillBar 100 = Inr (cells 20 filledGlyph)
         \<and> generateSkillBar 50 = Inr (cells 10 filledGlyph @ cells 10 blankGlyph)"
proof (intro conjI)
  let ?k = "(2 * level + 5) div 10"
  have range: "0 \<le> ?k \<and> ?k \<le> 20"
    using assms by presburger
  have round: "Math_round ((of_int level / 100) * 20) = ?k"
    using Math_round_fifth [of level] by simp
  have bar: "generateSkillBar level = Inr (cells (nat ?k) filledGlyph @ cells (20 - nat ?k) blankGlyph)"
    using range by (simp add: generateSkillBar_eq Let_def nat_diff_distrib')
  show "\<exists>k. int k = Math_round ((of_int level / 100) * 20) \<and> k \<le> 20 \<and> k + (20 - k) = 20
           \<and> generateSkillBar level = Inr (cells k filledGlyph @ cells (20 - k) blankGlyph)"
  proof (intro exI [of _ "nat ?k"] conjI)
    show "int (nat ?k) = Math_round ((of_int level / 100) * 20)"
      using range round by simp
    show "nat ?k \<le> 20"
      using range by linarith
    then show "nat ?k + (20 - nat ?k) = 20"
      by simp
    show "generateSkillBar level = Inr (cells (nat ?k) filledGlyph @ cells (20 - nat ?k) blankGlyph)"
      by (rule bar)
  qed
  show "generateSkillBar 0 = Inr (cells 20 blankGlyph)"
    by (simp add: generateSkillBar_eq cells_def)
  show "generateSkillBar 100 = Inr (cells 20 filledGlyph)"
    by (simp add: generateSkillBar_eq cells_def)
  show "generateSkillBar 50 = Inr (cells 10 filledGlyph @ cells 10 blankGlyph)"
    by (simp add: generateSkillBar_eq)
qed

theorem generateSkillBar_twenty_cells_witness:
  "(0::int) \<le> 35 \<and> (35::int) \<le> 100
     \<and> generateSkillBar 35 = Inr (cells 7 filledGlyph @ cells 13 blankGlyph)"
proof -
  obtain k where k: "int k = Math_round ((of_int 35 / 100) * 20)"
      "generateSkillBar 35 = Inr (cells k filledGlyph @ cells (20 - k) blankGlyph)"
    using generateSkillBar_twenty_cells [of 35] by auto
  have "Math_round ((of_int 35 / 100) * 20) = 7"
    using Math_round_fifth [of 35] by simp
  with k(1) have "k = 7" by simp
  with k(2) show ?thesis by simp
qed

section \<open>Facts about the string operations\<close>


lemma trim_Nil_iff: "trim s = [] \<longleftrightarrow> (\<forall>c \<in> set s. isWhiteSpace c)"
proof -
  let ?ys = "dropWhile isWhiteSpace s"
  have "?ys = []" if "\<forall>c \<in> set ?ys. isWhiteSpace c"
  proof (rule ccontr)
    assume "?ys \<noteq> []"
    then have "hd ?ys \<in> set ?ys" and "\<not> isWhiteSpace (hd ?ys)"
      using hd_dropWhile [of isWhiteSpace s] by simp_all
    with that show False by blast
  qed
  moreover have "\<forall>c \<in> set ?ys. isWhiteSpace c" if "?ys = []"
    by (simp only: that list.set ball_empty)
  ultimately have "(\<forall>c \<in> set ?ys. isWhiteSpace c) \<longleftrightarrow> ?ys = []"
    by (rule iffI)
  moreover have "trim s = [] \<longleftrightarrow> (\<forall>c \<in> set ?ys. isWhiteSpace c)"
    unfolding trim_def by (simp only: rev_is_Nil_conv dropWhile_eq_Nil_conv set_rev)
  ultimately show ?thesis
    by (simp only: dropWhile_eq_Nil_conv)
qed


lemma trim_prefix: "\<exists>ws. dropWhile isWhiteSpace s = trim s @ ws"
proof -
  let ?ys = "dropWhile isWhiteSpace s"
  have "rev ?ys = takeWhile isWhiteSpace (rev ?ys) @ dropWhile isWhiteSpace (rev ?ys)"
    by simp
  then have "?ys = rev (dropWhile isWhiteSpace (rev ?ys)) @ rev (takeWhile isWhiteSpace (rev ?ys))"
    by (metis rev_append rev_rev_ident)
  then show ?thesis
    unfolding trim_def by blast
qed

lemma hd_trim: "trim s \<noteq> [] \<Longrightarrow> \<not> isWhiteSpace (hd (trim s))"
proof -
  assume ne: "trim s \<noteq> []"
  obtain ws where ws: "dropWhile isWhiteSpace s = trim s @ ws"
    using trim_prefix by blast
  with ne have "hd (dropWhile isWhiteSpace s) = hd (trim s)" and "dropWhile isWhiteSpace s \<noteq> []"
    by simp_all
  then show ?thesis
    using hd_dropWhile [of isWhiteSpace s] by simp
qed

lemma toLowerCase_Nil_iff: "toLowerCase s = [] \<longleftrightarrow> s = []"
  by (simp add: toLowerCase_def)

lemma lower_not_space:
  "\<not> isWhiteSpace c \<Longrightarrow> (if 0x41 \<le> c \<and> c \<le> 0x5A then c + 0x20 else c) \<noteq> (0x20 :: jschar)"
proof (cases "0x41 \<le> c \<and> c \<le> 0x5A")
  case True
  then have "c \<noteq> 0"
    by auto
  with True show ?thesis by simp
next
  case False
  assume "\<not> isWhiteSpace c"
  then have "c \<noteq> 0x20"
    by (auto simp add: isWhiteSpace_def)
  with False show ?thesis by auto
qed

lemma hd_split_space: "c \<noteq> 0x20 \<Longrightarrow> hd (split (js '' '') (c # s)) \<noteq> []"
  by (simp add: js_def Let_def)

lemma commandOf_Nil_iff: "commandOf input = [] \<longleftrightarrow> trim input = []"
proof (cases "trim input")
  case Nil
  then show ?thesis
    by (simp add: commandOf_def toLowerCase_def)
next
  case (Cons c s)
  then have "\<not> isWhiteSpace c"
    using hd_trim [of input] by simp
  then have "hd (toLowerCase (trim input)) \<noteq> 0x20" and "toLowerCase (trim input) \<noteq> []"
    using Cons lower_not_space [of c] by (simp_all add: toLowerCase_def)
  then have "hd (split (js '' '') (toLowerCase (trim input))) \<noteq> []"
    using hd_split_space [of "hd (toLowerCase (trim input))" "tl (toLowerCase (trim input))"]
    by simp
  with Cons show ?thesis
    by (simp add: commandOf_def)
qed





section \<open>Properties of the link helper\<close>








section \<open>The loops only append to the result\<close>

lemma pushLine_prefix: "prefix (fst st) (fst (pushLine b st))"
  by (cases st) (simp add: pushLine_def)

lemma wrapWords_prefix: "prefix (fst st) (fst (snd (wrapWords ws b st)))"
proof (induction ws arbitrary: b st)
  case Nil
  show ?case by simp
next
  case (Cons w ws)
  have step: "prefix (fst st) (fst (snd (wrapWords ws b' st')))" if "prefix (fst st) (fst st')" for b' st'
    using that Cons.IH [of st' b'] by (rule prefix_order.trans)
  have p0: "prefix (fst st) (fst st)"
    by simp
  have p1: "prefix (fst st) (fst (pushLine b st))"
    by (rule pushLine_prefix)
  have p2: "prefix (fst st) (fst (pushLine w (pushLine b st)))"
    using p1 pushLine_prefix by (rule prefix_order.trans)
  have p3: "prefix (fst st) (fst (pushLine w st))"
    by (rule pushLine_prefix)
  show ?case
    by (simp add: Let_def step p0 p1 p2 p3)
qed

lemma wrapSegment_prefix: "prefix (fst st) (fst (wrapSegment st seg))"
proof (cases st)
  case (Pair result isFirst)
  obtain b st1 where w: "wrapWords (split (js '' '') seg) [] st = (b, st1)"
    by (cases "wrapWords (split (js '' '') seg) [] st") auto
  then have "prefix (fst st) (fst st1)"
    using wrapWords_prefix [of st "split (js '' '') seg" "[]"] by simp
  moreover have "prefix (fst st1) (fst (pushLine b st1))"
    by (rule pushLine_prefix)
  ultimately show ?thesis
    using Pair w prefix_order.trans by (auto simp add: wrapSegment_def)
qed

lemma foldl_wrapSegment_prefix: "prefix (fst st) (fst (foldl wrapSegment st segs))"
proof (induction segs arbitrary: st)
  case Nil
  show ?case by simp
next
  case (Cons seg segs)
  show ?case
    using Cons.IH [of "wrapSegment st seg"] wrapSegment_prefix [of st seg] prefix_order.trans
    by auto
qed

lemma pushDescription_prefix: "prefix result (pushDescription d result)"
  using foldl_wrapSegment_prefix [of "(result, True)"]
  by (simp add: pushDescription_def Let_def)

lemma projectBlocks_prefix: "prefix result (projectBlocks i ps result)"
proof (induction ps arbitrary: i result)
  case Nil
  show ?case by simp
next
  case (Cons p ps)
  let ?r1 = "result @ [numberToString (int i + 1) @ js ''. '' @ project_name p]"
  have "prefix result (pushDescription (project_description p) ?r1)"
    using pushDescription_prefix [of ?r1 "project_description p"] by (rule append_prefixD)
  then have "prefix result (pushDescription (project_description p) ?r1 @ more)" for more
    by (simp add: prefix_prefix)
  then show ?case
    using Cons.IH prefix_order.trans
    by (simp add: Let_def) blast
qed

lemma projectsOutput_not_Nil: "projectsOutput pd \<noteq> []"
  using projectBlocks_prefix [of "[js ''Projects Portfolio:'', []]" 0 "pd_projects pd"]
  by (auto simp add: projectsOutput_def)

lemma skillCategories_prefix: "skillCategories cats result = Inr out \<Longrightarrow> prefix result out"
proof (induction cats arbitrary: result)
  case Nil
  then show ?case by simp
next
  case (Cons cat cats)
  obtain category skills where cat: "cat = (category, skills)"
    by (cases cat)
  from Cons.prems cat obtain rows where
    "skillCategories cats (result @ [category @ js '':''] @ rows @ [[]]) = Inr out"
    by (auto split: sum.splits)
  then have "prefix (result @ [category @ js '':''] @ rows @ [[]]) out"
    by (rule Cons.IH)
  then show ?case
    using append_prefixD by blast
qed

lemma skillsOutput_not_Nil: "skillsOutput pd = Inr out \<Longrightarrow> out \<noteq> []"
  using skillCategories_prefix [of "pd_skills pd" "[js ''Technical Skills:'', []]" out]
  by (auto simp add: skillsOutput_def)

section \<open>Properties of the dispatch\<close>

lemmas string_eval = js_def trim_def toLowerCase_def isWhiteSpace_def commandOf_def Let_def

lemma commandOf_names:
  "commandOf (js ''help'') = js ''help''"
  "commandOf (js ''about'') = js ''about''"
  "commandOf (js ''skills'') = js ''skills''"
  "commandOf (js ''projects'') = js ''projects''"
  "commandOf (js ''education'') = js ''education''"
  "commandOf (js ''contact'') = js ''contact''"
  "commandOf (js ''resume'') = js ''resume''"
  "commandOf (js ''whoami'') = js ''whoami''"
  "commandOf (js ''pwd'') = js ''pwd''"
  "commandOf (js ''ls'') = js ''ls''"
  "commandOf (js ''date'') = js ''date''"
  "commandOf (js ''neofetch'') = js ''neofetch''"
  by (simp_all add: string_eval)

text \<open>
  A call of \<open>executeCommand\<close> that starts with no other call suspended, run to its end:
  the history entry that it appends.
\<close>

lemma executeCommand_whole:
  assumes "suspended s = []" and "commandOf input \<noteq> js ''clear''"
  shows "\<exists>out. commands (executeCommand_continue t (executeCommand pd COMMANDS input s)) =
           commands s @ [\<lparr>entry_input = input, entry_output = out, entry_timestamp = t\<rparr>]
         \<and> out =
             (if commandOf input = [] then Some [[]]
              else if commandOf input = js ''resume'' then Some (cmd_output (reg_resume COMMANDS))
              else if commandOf input = js ''download'' then Some (downloadOutput pd)
              else (case getProperty COMMANDS (commandOf input) of
                      Own c \<Rightarrow> Some (cmd_output c)
                    | Inherited \<Rightarrow> None
                    | Absent \<Rightarrow> Some [js ''Command not found: '' @ commandOf input,
                         js ''Type '' @ [0x22] @ js ''help'' @ [0x22] @ js '' to see available commands.'']))"
  using assms
  by (simp add: executeCommand_def executeCommand_continue_def await_def Let_def split: property.splits)

text \<open>
  Claim C7: \<open>clear\<close> empties the history and appends no entry: the call returns before
  the \<open>await\<close>, so it suspends nothing, and with no other call suspended a timer changes
  nothing.
\<close>

theorem clear_empties_history:
  assumes "commandOf input = js ''clear''"
  shows "commands (executeCommand pd COMMANDS input s) = []
         \<and> suspended (executeCommand pd COMMANDS input s) = suspended s
         \<and> \<not> isTyping (executeCommand pd COMMANDS input s)
         \<and> (suspended s = [] \<longrightarrow>
              executeCommand_continue t (executeCommand pd COMMANDS input s)
                = executeCommand pd COMMANDS input s)"
proof -
  have "js ''clear'' \<noteq> []"
    by (simp add: js_def)
  then show ?thesis
    using assms by (simp add: executeCommand_def executeCommand_continue_def Let_def)
qed

theorem clear_empties_history_witness:
  "commandOf (js ''clear'') = js ''clear'' \<and> commandOf (js ''  CLEAR now'') = js ''clear''
   \<and> suspended (mounted samplePortfolio 0) = []
   \<and> commands (mounted samplePortfolio 0) \<noteq> []
   \<and> commands (executeCommand_continue 300
        (executeCommand samplePortfolio (projr (generateCommands samplePortfolio 0)) (js ''clear'')
           (mounted samplePortfolio 0))) = []
   \<and> commands (executeCommand_continue 300
        (executeCommand samplePortfolio (projr (generateCommands samplePortfolio 0)) (js ''  CLEAR now'')
           (mounted samplePortfolio 0))) = []"
proof -
  have c: "commandOf (js ''clear'') = js ''clear''" "commandOf (js ''  CLEAR now'') = js ''clear''"
    by (simp_all add: string_eval)
  have m: "suspended (mounted samplePortfolio 0) = []" "commands (mounted samplePortfolio 0) \<noteq> []"
    by (simp_all add: mounted_def)
  show ?thesis
    using clear_empties_history [OF c(1), of samplePortfolio "projr (generateCommands samplePortfolio 0)"
        "mounted samplePortfolio 0" 300]
      clear_empties_history [OF c(2), of samplePortfolio "projr (generateCommands samplePortfolio 0)"
        "mounted samplePortfolio 0" 300] c m
    by simp
qed

text \<open>
  Claim C8: when the command name is empty, which is when the input is empty or all white
  space, the call records exactly one entry: the input as it was given, with the output
  of one empty line.
\<close>

theorem empty_command_recorded:
  assumes "commandOf input = []" and "suspended s = []"
  shows "(\<forall>c \<in> set input. isWhiteSpace c)
         \<and> executeCommand_continue t (executeCommand pd COMMANDS input s) =
             s\<lparr>commands := commands s @
                  [\<lparr>entry_input = input, entry_output = Some [[]], entry_timestamp = t\<rparr>],
               currentInput := [], isTyping := False\<rparr>"
proof
  show "\<forall>c \<in> set input. isWhiteSpace c"
    using assms(1) by (simp add: commandOf_Nil_iff trim_Nil_iff)
  show "executeCommand_continue t (executeCommand pd COMMANDS input s) =
             s\<lparr>commands := commands s @
                  [\<lparr>entry_input = input, entry_output = Some [[]], entry_timestamp = t\<rparr>],
               currentInput := [], isTyping := False\<rparr>"
    using assms
    by (simp add: executeCommand_def executeCommand_continue_def await_def Let_def)
qed

theorem empty_command_recorded_witness:
  "commandOf (js '''') = [] \<and> commandOf (js ''   '') = [] \<and> suspended (mounted samplePortfolio 0) = []
   \<and> commands (executeCommand_continue 300
        (executeCommand samplePortfolio (projr (generateCommands samplePortfolio 0)) (js '''')
           (mounted samplePortfolio 0))) =
       [welcomeCommand samplePortfolio 0,
        \<lparr>entry_input = js '''', entry_output = Some [[]], entry_timestamp = 300\<rparr>]
   \<and> commands (executeCommand_continue 300
        (executeCommand samplePortfolio (projr (generateCommands samplePortfolio 0)) (js ''   '')
           (mounted samplePortfolio 0))) =
       [welcomeCommand samplePortfolio 0,
        \<lparr>entry_input = js ''   '', entry_output = Some [[]], entry_timestamp = 300\<rparr>]"
proof -
  have c: "commandOf (js '''') = []" "commandOf (js ''   '') = []"
    by (simp_all add: string_eval)
  have m: "suspended (mounted samplePortfolio 0) = []"
    by (simp add: mounted_def)
  show ?thesis
    using empty_command_recorded [OF c(1) m, of 300 samplePortfolio "projr (generateCommands samplePortfolio 0)"]
      empty_command_recorded [OF c(2) m, of 300 samplePortfolio "projr (generateCommands samplePortfolio 0)"]
      c m
    by (simp add: mounted_def)
qed

text \<open>
  Claim C6 on the input \<open>constructor\<close>. The name is not empty, is no command and is none
  of \<open>clear\<close>, \<open>resume\<close>, \<open>download\<close>; but \<open>COMMANDS['constructor']\<close> is the inherited
  \<open>Object\<close> function, which is truthy, so the branch of the table lookup is taken and the
  output recorded is \<open>undefined\<close>, not the two lines of the last branch. Rendering that
  entry raises \<open>TypeError\<close>.
\<close>

theorem constructor_is_not_reported:
  "commandOf (js ''constructor'') = js ''constructor''
   \<and> js ''constructor'' \<notin> set commandNames
   \<and> js ''constructor'' \<notin> {[], js ''clear'', js ''resume'', js ''download''}
   \<and> commands (executeCommand_continue t
        (executeCommand pd COMMANDS (js ''constructor'') (mounted pd t0))) =
       [welcomeCommand pd t0,
        \<lparr>entry_input = js ''constructor'', entry_output = None, entry_timestamp = t\<rparr>]
   \<and> renderHistory (commands (executeCommand_continue t
        (executeCommand pd COMMANDS (js ''constructor'') (mounted pd t0)))) = Inl TypeError"
proof -
  have c: "commandOf (js ''constructor'') = js ''constructor''"
    by (simp add: string_eval)
  have n: "js ''constructor'' \<notin> set commandNames"
      "js ''constructor'' \<notin> {[], js ''clear'', js ''resume'', js ''download''}"
    by (simp_all add: commandNames_def js_def)
  have p: "getProperty COMMANDS (js ''constructor'') = Inherited"
    by (simp add: getProperty_def objectPrototypeKeys_def js_def)
  have m: "suspended (mounted pd t0) = []" "commands (mounted pd t0) = [welcomeCommand pd t0]"
    by (simp_all add: mounted_def)
  have e: "commands (executeCommand_continue t
        (executeCommand pd COMMANDS (js ''constructor'') (mounted pd t0))) =
       [welcomeCommand pd t0,
        \<lparr>entry_input = js ''constructor'', entry_output = None, entry_timestamp = t\<rparr>]"
    using executeCommand_whole [of "mounted pd t0" "js ''constructor''" t pd COMMANDS] c n p m
    by auto
  have w: "entry_output (welcomeCommand pd t0) \<noteq> None"
    by (simp add: welcomeCommand_def)
  have "renderHistory [welcomeCommand pd t0,
        \<lparr>entry_input = js ''constructor'', entry_output = None, entry_timestamp = t\<rparr>] = Inl TypeError"
    using w by (auto split: option.splits)
  with c n e show ?thesis
    by simp
qed

text \<open>
  Where the name is no inherited property either, the last branch is taken: two lines, the
  first with the name, the second pointing to \<open>help\<close>. The input is taken to be ASCII,
  on which \<open>toLowerCase\<close> is exact.
\<close>

lemma unknown_command_reported:
  assumes "commandOf input \<noteq> []" and "commandOf input \<notin> set commandNames"
    and "commandOf input \<notin> {js ''clear'', js ''resume'', js ''download''}"
    and "commandOf input \<notin> set objectPrototypeKeys" and "suspended s = []"
    and "\<forall>c \<in> set input. c < 0x80"
  shows "commands (executeCommand_continue t (executeCommand pd COMMANDS input s)) =
           commands s @
           [\<lparr>entry_input = input,
             entry_output = Some [js ''Command not found: '' @ commandOf input,
               js ''Type '' @ [0x22] @ js ''help'' @ [0x22] @ js '' to see available commands.''],
             entry_timestamp = t\<rparr>]"
proof -
  have "getProperty COMMANDS (commandOf input) = Absent"
    using assms(2,4) by (simp add: getProperty_def commandNames_def)
  then show ?thesis
    using executeCommand_whole [of s input t pd COMMANDS] assms(1-5) by auto
qed

lemma bogus_reported:
  "commands (executeCommand_continue t (executeCommand pd COMMANDS (js ''bogus'') (mounted pd t0))) =
     [welcomeCommand pd t0,
      \<lparr>entry_input = js ''bogus'',
        entry_output = Some [js ''Command not found: bogus'',
          js ''Type '' @ [0x22] @ js ''help'' @ [0x22] @ js '' to see available commands.''],
        entry_timestamp = t\<rparr>]"
proof -
  have c: "commandOf (js ''bogus'') = js ''bogus''"
    by (simp add: string_eval)
  have n: "js ''bogus'' \<noteq> []" "js ''bogus'' \<notin> set commandNames"
      "js ''bogus'' \<notin> {js ''clear'', js ''resume'', js ''download''}"
      "js ''bogus'' \<notin> set objectPrototypeKeys"
    by (simp_all add: commandNames_def objectPrototypeKeys_def js_def)
  have m: "suspended (mounted pd t0) = []" "commands (mounted pd t0) = [welcomeCommand pd t0]"
    by (simp_all add: mounted_def)
  have j: "js ''Command not found: '' @ js ''bogus'' = js ''Command not found: bogus''"
    by (simp add: js_def)
  have a: "\<forall>c \<in> set (js ''bogus''). c < 0x80"
    by (simp add: js_def)
  show ?thesis
    using unknown_command_reported [of "js ''bogus''" "mounted pd t0" t pd COMMANDS] c n m j a
    by simp
qed

section \<open>The registered commands and the date\<close>

lemma civilFromDays_0: "civilFromDays 0 = (1970, 1, 1)"
  unfolding civilFromDays_def Let_def by simp

lemma Date_toString_1500:
  "Date_toString 1500 = js ''Thu Jan 01 1970 00:00:01 GMT+0000 (Coordinated Universal Time)''"
  unfolding Date_toString_def Let_def
  by (simp add: civilFromDays_0 dayNames_def monthNames_def padStart_def js_def)

lemma Date_toString_2300:
  "Date_toString 2300 = js ''Thu Jan 01 1970 00:00:02 GMT+0000 (Coordinated Universal Time)''"
  unfolding Date_toString_def Let_def
  by (simp add: civilFromDays_0 dayNames_def monthNames_def padStart_def js_def)

lemma sample_skills: "\<exists>skillLines. skillsOutput samplePortfolio = Inr skillLines"
  by (simp add: skillsOutput_def samplePortfolio_def generateSkillBar_eq Let_def)

lemma sample_registry:
  "generateCommands samplePortfolio built = Inr (projr (generateCommands samplePortfolio built))"
  using sample_skills by (auto simp add: generateCommands_def)

lemma generateCommands_outputs:
  assumes "generateCommands pd built = Inr COMMANDS"
  shows "cmd_output (reg_help COMMANDS) = helpOutput"
    and "cmd_output (reg_about COMMANDS) =
           [personal_name (pd_personal pd) @ js '' - '' @ personal_title (pd_personal pd), []] @ pd_about pd"
    and "skillsOutput pd = Inr (cmd_output (reg_skills COMMANDS))"
    and "cmd_output (reg_projects COMMANDS) = projectsOutput pd"
    and "cmd_output (reg_education COMMANDS) = educationOutput pd"
    and "cmd_output (reg_contact COMMANDS) = contactOutput pd"
    and "cmd_output (reg_resume COMMANDS) = resumeOutput pd"
    and "cmd_output (reg_whoami COMMANDS) = [personal_username (pd_personal pd)]"
    and "cmd_output (reg_pwd COMMANDS) = [js ''/home/'' @ personal_username (pd_personal pd) @ js ''/portfolio'']"
    and "cmd_output (reg_ls COMMANDS) = formatFileList pd"
    and "cmd_output (reg_date COMMANDS) = [Date_toString built]"
    and "cmd_output (reg_neofetch COMMANDS) = neofetchOutput pd"
  using assms by (auto simp add: generateCommands_def split: sum.splits)

lemma generateCommands_not_Nil:
  assumes "generateCommands pd built = Inr COMMANDS"
  shows "cmd_output (reg_help COMMANDS) \<noteq> []"
    and "cmd_output (reg_about COMMANDS) \<noteq> []"
    and "cmd_output (reg_skills COMMANDS) \<noteq> []"
    and "cmd_output (reg_projects COMMANDS) \<noteq> []"
    and "cmd_output (reg_education COMMANDS) \<noteq> []"
    and "cmd_output (reg_contact COMMANDS) \<noteq> []"
    and "cmd_output (reg_resume COMMANDS) \<noteq> []"
    and "cmd_output (reg_whoami COMMANDS) \<noteq> []"
    and "cmd_output (reg_pwd COMMANDS) \<noteq> []"
    and "cmd_output (reg_ls COMMANDS) \<noteq> []"
    and "cmd_output (reg_date COMMANDS) \<noteq> []"
    and "cmd_output (reg_neofetch COMMANDS) \<noteq> []"
proof -
  note o = generateCommands_outputs [OF assms]
  show "cmd_output (reg_help COMMANDS) \<noteq> []"
    by (simp add: o(1) helpOutput_def)
  show "cmd_output (reg_about COMMANDS) \<noteq> []"
    by (simp add: o(2))
  show "cmd_output (reg_skills COMMANDS) \<noteq> []"
    using o(3) by (rule skillsOutput_not_Nil)
  show "cmd_output (reg_projects COMMANDS) \<noteq> []"
    by (simp add: o(4) projectsOutput_not_Nil)
  show "cmd_output (reg_education COMMANDS) \<noteq> []"
    by (simp add: o(5) educationOutput_def Let_def)
  show "cmd_output (reg_contact COMMANDS) \<noteq> []"
    by (simp add: o(6) contactOutput_def)
  show "cmd_output (reg_resume COMMANDS) \<noteq> []"
    by (simp add: o(7) resumeOutput_def)
  show "cmd_output (reg_whoami COMMANDS) \<noteq> []"
    by (simp add: o(8))
  show "cmd_output (reg_pwd COMMANDS) \<noteq> []"
    by (simp add: o(9))
  show "cmd_output (reg_ls COMMANDS) \<noteq> []"
    by (simp add: o(10) formatFileList_def)
  show "cmd_output (reg_date COMMANDS) \<noteq> []"
    by (simp add: o(11))
  show "cmd_output (reg_neofetch COMMANDS) \<noteq> []"
    by (simp add: o(12) neofetchOutput_def)
qed

lemma getProperty_names:
  "getProperty COMMANDS (js ''help'') = Own (reg_help COMMANDS)"
  "getProperty COMMANDS (js ''about'') = Own (reg_about COMMANDS)"
  "getProperty COMMANDS (js ''skills'') = Own (reg_skills COMMANDS)"
  "getProperty COMMANDS (js ''projects'') = Own (reg_projects COMMANDS)"
  "getProperty COMMANDS (js ''education'') = Own (reg_education COMMANDS)"
  "getProperty COMMANDS (js ''contact'') = Own (reg_contact COMMANDS)"
  "getProperty COMMANDS (js ''resume'') = Own (reg_resume COMMANDS)"
  "getProperty COMMANDS (js ''whoami'') = Own (reg_whoami COMMANDS)"
  "getProperty COMMANDS (js ''pwd'') = Own (reg_pwd COMMANDS)"
  "getProperty COMMANDS (js ''ls'') = Own (reg_ls COMMANDS)"
  "getProperty COMMANDS (js ''date'') = Own (reg_date COMMANDS)"
  "getProperty COMMANDS (js ''neofetch'') = Own (reg_neofetch COMMANDS)"
  by (simp_all add: getProperty_def js_def)

lemma registered_dispatch:
  assumes "commandOf name = name" and "name \<notin> {[], js ''clear'', js ''download''}"
    and "getProperty COMMANDS name = Own c" and "name = js ''resume'' \<longrightarrow> c = reg_resume COMMANDS"
    and "suspended s = []"
  shows "commands (executeCommand_continue t (executeCommand pd COMMANDS name s)) =
           commands s @ [\<lparr>entry_input = name, entry_output = Some (cmd_output c), entry_timestamp = t\<rparr>]"
  using executeCommand_whole [of s name t pd COMMANDS] assms by auto

section \<open>The date that a session records\<close>

lemma timedStep_app:
  assumes "timedStep pd ss ev = Some ss1"
  shows "app ss1 = app ss \<or> (\<exists>e. app ss1 = step pd (app ss) e)"
proof -
  obtain t a where ev: "ev = (t, a)"
    by (cases ev)
  show ?thesis
  proof (cases a)
    case (Edit v)
    with assms ev have "app ss1 = step pd (app ss) (Change v)"
      by (auto simp add: timedStep_def Let_def split: if_splits simp del: step.simps)
    then show ?thesis by blast
  next
    case Enter
    with assms ev obtain COMMANDS where "generateCommands pd (renderedAt ss) = Inr COMMANDS"
      by (auto simp add: timedStep_def split: if_splits sum.splits)
    with assms ev Enter have "app ss1 = step pd (app ss) (Submit COMMANDS)"
      by (auto simp add: timedStep_def Let_def split: if_splits simp del: step.simps)
    then show ?thesis by blast
  next
    case Timer
    with assms ev have "app ss1 = step pd (app ss) (TimerFires t)"
      by (auto simp add: timedStep_def split: if_splits)
    then show ?thesis by blast
  next
    case Tick
    with assms ev have "app ss1 = app ss"
      by (auto simp add: timedStep_def split: if_splits)
    then show ?thesis by blast
  qed
qed

text \<open>The states of a session are states that the events of the component reach.\<close>

lemma timedRun_run: "timedRun pd ss evs = Some ss' \<Longrightarrow> \<exists>es. app ss' = run pd (app ss) es"
proof (induction evs arbitrary: ss)
  case Nil
  then have "app ss' = run pd (app ss) []"
    by (simp add: run_def)
  then show ?case by blast
next
  case (Cons ev evs)
  from Cons.prems obtain ss1 where ss1: "timedStep pd ss ev = Some ss1" "timedRun pd ss1 evs = Some ss'"
    by (auto split: option.splits)
  from ss1(2) obtain es where es: "app ss' = run pd (app ss1) es"
    using Cons.IH by blast
  from ss1(1) have "app ss1 = app ss \<or> (\<exists>e. app ss1 = step pd (app ss) e)"
    by (rule timedStep_app)
  then show ?case
  proof
    assume "app ss1 = app ss"
    with es show ?thesis by auto
  next
    assume "\<exists>e. app ss1 = step pd (app ss) e"
    then obtain e where "app ss1 = step pd (app ss) e"
      by blast
    with es have "app ss' = run pd (app ss) (e # es)"
      by (simp add: run_def)
    then show ?thesis by blast
  qed
qed

text \<open>
  Claim C1, as written, has the output of \<open>date\<close> rendered when the command is
  dispatched. The component is mounted at 0.5 s, so that its clock ticks at 1.5 s and at
  2.5 s. The user has the input line read \<open>date\<close> at 1.2 s and submits it at 2.3 s: the
  last render was the tick at 1.5 s, and the handler reads the table built then. The
  timer fires at 2.6 s, and the entry it appends has the second of that render, not the
  second of the dispatch.
\<close>

theorem date_output_counterexample:
  "map_option (\<lambda>ss. commands (app ss))
     (timedRun samplePortfolio (startSession samplePortfolio 500)
        [(1200, Edit (js ''date'')), (1500, Tick), (2300, Enter), (2500, Tick), (2600, Timer)])
     = Some [welcomeCommand samplePortfolio 500,
         \<lparr>entry_input = js ''date'',
          entry_output = Some [js ''Thu Jan 01 1970 00:00:01 GMT+0000 (Coordinated Universal Time)''],
          entry_timestamp = 2600\<rparr>]
   \<and> Date_toString 2300 = js ''Thu Jan 01 1970 00:00:02 GMT+0000 (Coordinated Universal Time)''
   \<and> js ''Thu Jan 01 1970 00:00:01 GMT+0000 (Coordinated Universal Time)''
       \<noteq> js ''Thu Jan 01 1970 00:00:02 GMT+0000 (Coordinated Universal Time)''"
proof -
  let ?typed = "(mounted samplePortfolio 500)\<lparr>currentInput := js ''date''\<rparr>"
  let ?out = "Some [js ''Thu Jan 01 1970 00:00:01 GMT+0000 (Coordinated Universal Time)'']"
  let ?waiting = "?typed\<lparr>isTyping := True, suspended := [(js ''date'', ?out)]\<rparr>"
  obtain C where r: "generateCommands samplePortfolio 1500 = Inr C"
    using sample_registry by blast
  have d: "cmd_output (reg_date C) = [js ''Thu Jan 01 1970 00:00:01 GMT+0000 (Coordinated Universal Time)'']"
    using generateCommands_outputs(11) [OF r] by (simp add: Date_toString_1500)
  have t: "trim (js ''date'') \<noteq> []" "js ''date'' \<noteq> []"
    by (simp_all add: string_eval)
  have n: "js ''date'' \<noteq> js ''clear''" "js ''date'' \<noteq> js ''download''" "js ''date'' \<noteq> js ''resume''"
    by (simp_all add: js_def)
  have edit: "timedStep samplePortfolio (startSession samplePortfolio 500) (1200, Edit (js ''date''))
      = Some \<lparr>app = ?typed, renderedAt = 1200, nextTick = 1500, timerDue = None, clock = 1200\<rparr>"
    using t(2) by (simp add: timedStep_def startSession_def mounted_def Let_def)
  have tick1: "timedStep samplePortfolio
        \<lparr>app = ?typed, renderedAt = 1200, nextTick = 1500, timerDue = None, clock = 1200\<rparr> (1500, Tick)
      = Some \<lparr>app = ?typed, renderedAt = 1500, nextTick = 2500, timerDue = None, clock = 1500\<rparr>"
    by (simp add: timedStep_def)
  have submit: "step samplePortfolio ?typed (Submit C) = ?waiting"
    using t n d
    by (simp add: handleSubmit_def executeCommand_def await_def commandOf_names getProperty_names
        mounted_def Let_def)
  have enter: "timedStep samplePortfolio
        \<lparr>app = ?typed, renderedAt = 1500, nextTick = 2500, timerDue = None, clock = 1500\<rparr> (2300, Enter)
      = Some \<lparr>app = ?waiting, renderedAt = 2300, nextTick = 2500, timerDue = Some 2600, clock = 2300\<rparr>"
    unfolding timedStep_def using r submit
    by (simp add: mounted_def Let_def del: step.simps)
  have tick2: "timedStep samplePortfolio
        \<lparr>app = ?waiting, renderedAt = 2300, nextTick = 2500, timerDue = Some 2600, clock = 2300\<rparr> (2500, Tick)
      = Some \<lparr>app = ?waiting, renderedAt = 2500, nextTick = 3500, timerDue = Some 2600, clock = 2500\<rparr>"
    by (simp add: timedStep_def)
  let ?done = "?typed\<lparr>commands := [welcomeCommand samplePortfolio 500,
         \<lparr>entry_input = js ''date'', entry_output = ?out, entry_timestamp = 2600\<rparr>],
       currentInput := [], isTyping := False, suspended := []\<rparr>"
  have timer: "timedStep samplePortfolio
        \<lparr>app = ?waiting, renderedAt = 2500, nextTick = 3500, timerDue = Some 2600, clock = 2500\<rparr> (2600, Timer)
      = Some \<lparr>app = ?done, renderedAt = 2600, nextTick = 3500, timerDue = None, clock = 2600\<rparr>"
    by (simp add: timedStep_def executeCommand_continue_def mounted_def)
  have "map_option (\<lambda>ss. commands (app ss))
     (timedRun samplePortfolio (startSession samplePortfolio 500)
        [(1200, Edit (js ''date'')), (1500, Tick), (2300, Enter), (2500, Tick), (2600, Timer)])
     = Some [welcomeCommand samplePortfolio 500,
         \<lparr>entry_input = js ''date'', entry_output = ?out, entry_timestamp = 2600\<rparr>]"
    by (simp add: edit tick1 enter tick2 timer)
  moreover have "js ''Thu Jan 01 1970 00:00:01 GMT+0000 (Coordinated Universal Time)''
       \<noteq> js ''Thu Jan 01 1970 00:00:02 GMT+0000 (Coordinated Universal Time)''"
    by (simp add: js_def)
  ultimately show ?thesis
    using Date_toString_2300 by simp
qed

text \<open>
  In a session the table that a submit reads was built by the last render, and the last
  render is at most a second old: the clock of the component renders it every second.
\<close>

lemma timedStep_fresh:
  assumes "timedStep pd ss ev = Some ss1"
    and "renderedAt ss \<le> clock ss \<and> clock ss \<le> nextTick ss \<and> nextTick ss \<le> renderedAt ss + 1000"
  shows "renderedAt ss1 \<le> clock ss1 \<and> clock ss1 \<le> nextTick ss1 \<and> nextTick ss1 \<le> renderedAt ss1 + 1000"
proof -
  obtain t a where ev: "ev = (t, a)"
    by (cases ev)
  show ?thesis
    using assms ev
    by (cases a)
      (auto simp add: timedStep_def Let_def split: if_splits sum.splits simp del: step.simps)
qed

lemma timedRun_fresh:
  assumes "timedRun pd ss evs = Some ss'"
    and "renderedAt ss \<le> clock ss \<and> clock ss \<le> nextTick ss \<and> nextTick ss \<le> renderedAt ss + 1000"
  shows "renderedAt ss' \<le> clock ss' \<and> clock ss' \<le> nextTick ss' \<and> nextTick ss' \<le> renderedAt ss' + 1000"
  using assms
proof (induction evs arbitrary: ss)
  case Nil
  then show ?case by simp
next
  case (Cons ev evs)
  from Cons.prems(1) obtain ss1 where ss1: "timedStep pd ss ev = Some ss1" "timedRun pd ss1 evs = Some ss'"
    by (auto split: option.splits)
  from ss1(1) Cons.prems(2) have "renderedAt ss1 \<le> clock ss1 \<and> clock ss1 \<le> nextTick ss1
      \<and> nextTick ss1 \<le> renderedAt ss1 + 1000"
    by (rule timedStep_fresh)
  with ss1(2) show ?case
    by (rule Cons.IH)
qed

lemma enter_reads_last_render:
  assumes run: "timedRun pd (startSession pd t0) evs = Some ss"
    and enter: "timedStep pd ss (t, Enter) = Some ss1"
    and input: "currentInput (app ss) = js ''date''" "\<not> isTyping (app ss)" "suspended (app ss) = []"
  shows "suspended (app ss1) = [(js ''date'', Some [Date_toString (renderedAt ss)])]
         \<and> renderedAt ss \<le> t \<and> t \<le> renderedAt ss + 1000"
proof -
  have "renderedAt (startSession pd t0) \<le> clock (startSession pd t0)
      \<and> clock (startSession pd t0) \<le> nextTick (startSession pd t0)
      \<and> nextTick (startSession pd t0) \<le> renderedAt (startSession pd t0) + 1000"
    by (simp add: startSession_def)
  with run have fresh: "renderedAt ss \<le> clock ss \<and> clock ss \<le> nextTick ss
      \<and> nextTick ss \<le> renderedAt ss + 1000"
    by (rule timedRun_fresh)
  from enter have time: "clock ss \<le> t \<and> t \<le> nextTick ss"
    by (auto simp add: timedStep_def split: if_splits)
  from enter obtain COMMANDS where table: "generateCommands pd (renderedAt ss) = Inr COMMANDS"
    by (auto simp add: timedStep_def split: if_splits sum.splits)
  with enter have app: "app ss1 = handleSubmit pd COMMANDS (app ss)"
    by (auto simp add: timedStep_def Let_def split: if_splits)
  have t: "trim (js ''date'') \<noteq> []" "js ''date'' \<noteq> []"
    by (simp_all add: string_eval)
  have n: "js ''date'' \<noteq> js ''clear''" "js ''date'' \<noteq> js ''download''" "js ''date'' \<noteq> js ''resume''"
    by (simp_all add: js_def)
  have "suspended (handleSubmit pd COMMANDS (app ss)) = [(js ''date'', Some (cmd_output (reg_date COMMANDS)))]"
    using input t n
    by (simp add: handleSubmit_def executeCommand_def await_def commandOf_names getProperty_names Let_def)
  then show ?thesis
    using app generateCommands_outputs(11) [OF table] fresh time by simp
qed

text \<open>
  Claim C1, amended: for every registered command name, date among them, a call of
  \<open>executeCommand\<close> on the name records the output that the table stores for it, which
  is not empty; the output of \<open>date\<close> is the instant at which the table was built,
  whenever the command is dispatched.
\<close>

theorem registered_commands_output:
  assumes "generateCommands pd built = Inr COMMANDS" and "name \<in> set commandNames"
    and "suspended s = []"
  shows "\<exists>c. getProperty COMMANDS name = Own c \<and> cmd_output c \<noteq> []
           \<and> commands (executeCommand_continue t (executeCommand pd COMMANDS name s)) =
               commands s @ [\<lparr>entry_input = name, entry_output = Some (cmd_output c), entry_timestamp = t\<rparr>]
           \<and> (name = js ''date'' \<longrightarrow> cmd_output c = [Date_toString built])"
proof -
  note ne = generateCommands_not_Nil [OF assms(1)]
  note dt = generateCommands_outputs(11) [OF assms(1)]
  have special: "n \<notin> {[], js ''clear'', js ''download''}" if "n \<in> set commandNames" for n
    using that by (auto simp add: commandNames_def js_def)
  have same: "commandOf n = n" if "n \<in> set commandNames" for n
    using that commandOf_names by (auto simp add: commandNames_def)
  have own: "\<exists>c. getProperty COMMANDS name = Own c \<and> cmd_output c \<noteq> []
      \<and> (name = js ''resume'' \<longrightarrow> c = reg_resume COMMANDS)
      \<and> (name = js ''date'' \<longrightarrow> cmd_output c = [Date_toString built])"
    using assms(2) ne dt getProperty_names [of COMMANDS]
    by (auto simp add: commandNames_def)
  then obtain c where c: "getProperty COMMANDS name = Own c" "cmd_output c \<noteq> []"
      "name = js ''resume'' \<longrightarrow> c = reg_resume COMMANDS"
      "name = js ''date'' \<longrightarrow> cmd_output c = [Date_toString built]"
    by blast
  have "commands (executeCommand_continue t (executeCommand pd COMMANDS name s)) =
          commands s @ [\<lparr>entry_input = name, entry_output = Some (cmd_output c), entry_timestamp = t\<rparr>]"
    using same [OF assms(2)] special [OF assms(2)] c(1) c(3) assms(3) by (rule registered_dispatch)
  with c show ?thesis
    by blast
qed

theorem registered_commands_output_witness:
  "generateCommands samplePortfolio 1500 = Inr (projr (generateCommands samplePortfolio 1500))
   \<and> js ''date'' \<in> set commandNames \<and> suspended (mounted samplePortfolio 500) = []
   \<and> commands (executeCommand_continue 2600
        (executeCommand samplePortfolio (projr (generateCommands samplePortfolio 1500)) (js ''date'')
           (mounted samplePortfolio 500))) =
       [welcomeCommand samplePortfolio 500,
        \<lparr>entry_input = js ''date'', entry_output = Some [Date_toString 1500], entry_timestamp = 2600\<rparr>]"
proof -
  let ?C = "projr (generateCommands samplePortfolio 1500)"
  have r: "generateCommands samplePortfolio 1500 = Inr ?C"
    by (rule sample_registry)
  have n: "js ''date'' \<in> set commandNames"
    by (simp add: commandNames_def)
  have m: "suspended (mounted samplePortfolio 500) = []"
    by (simp add: mounted_def)
  show ?thesis
    using registered_commands_output [OF r n m, of 2600] r n m
    by (auto simp add: getProperty_names mounted_def)
qed

section \<open>The session as a state machine\<close>

lemma singleFlight_mounted: "singleFlight (mounted pd t0)"
  by (simp add: singleFlight_def mounted_def)

lemma singleFlight_executeCommand:
  assumes "suspended s = []"
  shows "singleFlight (executeCommand pd COMMANDS input s)"
  using assms
  by (simp add: singleFlight_def executeCommand_def await_def Let_def split: property.splits)

lemma singleFlight_step:
  assumes "singleFlight s"
  shows "singleFlight (step pd s ev)"
proof (cases ev)
  case (Change v)
  with assms show ?thesis
    by (simp add: singleFlight_def)
next
  case (Submit COMMANDS)
  show ?thesis
  proof (cases "trim (currentInput s) \<noteq> [] \<and> \<not> isTyping s")
    case True
    with assms have "suspended s = []"
      by (simp add: singleFlight_def)
    then have "singleFlight (executeCommand pd COMMANDS (currentInput s) s)"
      by (rule singleFlight_executeCommand)
    with True Submit show ?thesis
      by (simp add: handleSubmit_def)
  next
    case False
    with assms Submit show ?thesis
      by (auto simp add: handleSubmit_def)
  qed
next
  case (TimerFires t)
  show ?thesis
  proof (cases "suspended s")
    case Nil
    with assms TimerFires show ?thesis
      by (simp add: executeCommand_continue_def)
  next
    case (Cons p rest)
    with assms have "rest = []"
      by (simp add: singleFlight_def)
    with Cons TimerFires show ?thesis
      by (cases p) (simp add: executeCommand_continue_def singleFlight_def)
  qed
qed

lemma singleFlight_run: "singleFlight s \<Longrightarrow> singleFlight (run pd s evs)"
  unfolding run_def
  by (induction evs arbitrary: s) (simp_all add: singleFlight_step)

text \<open>
  Claim C9: in every state that the session reaches, at most one call of
  \<open>executeCommand\<close> is suspended, \<open>isTyping\<close> is set exactly while one is, and while it
  is set \<open>handleSubmit\<close> starts nothing: it leaves the state as it is.
\<close>

theorem one_resolution_in_flight:
  "length (suspended (run pd (mounted pd t0) evs)) \<le> 1
   \<and> isTyping (run pd (mounted pd t0) evs) = (suspended (run pd (mounted pd t0) evs) \<noteq> [])
   \<and> (isTyping (run pd (mounted pd t0) evs) \<longrightarrow>
        handleSubmit pd COMMANDS (run pd (mounted pd t0) evs) = run pd (mounted pd t0) evs)"
proof -
  have "singleFlight (run pd (mounted pd t0) evs)"
    using singleFlight_mounted by (rule singleFlight_run)
  then show ?thesis
    by (simp add: singleFlight_def handleSubmit_def)
qed

theorem one_resolution_in_flight_witness:
  "isTyping (run samplePortfolio (mounted samplePortfolio 0)
      [Change (js ''help''), Submit (projr (generateCommands samplePortfolio 0))])
   \<and> length (suspended (run samplePortfolio (mounted samplePortfolio 0)
      [Change (js ''help''), Submit (projr (generateCommands samplePortfolio 0))])) = 1
   \<and> run samplePortfolio (mounted samplePortfolio 0)
      [Change (js ''help''), Submit (projr (generateCommands samplePortfolio 0)),
       Submit (projr (generateCommands samplePortfolio 0))]
     = run samplePortfolio (mounted samplePortfolio 0)
      [Change (js ''help''), Submit (projr (generateCommands samplePortfolio 0))]"
proof -
  let ?C = "projr (generateCommands samplePortfolio 0)"
  let ?s = "run samplePortfolio (mounted samplePortfolio 0) [Change (js ''help''), Submit ?C]"
  have t: "trim (js ''help'') \<noteq> []" "commandOf (js ''help'') \<noteq> []"
      "commandOf (js ''help'') \<noteq> js ''clear''"
    by (simp_all add: string_eval)
  have typing: "isTyping ?s"
    using t by (simp add: run_def mounted_def handleSubmit_def executeCommand_def await_def Let_def
        split: property.splits)
  then have "handleSubmit samplePortfolio ?C ?s = ?s" and "suspended ?s \<noteq> []"
      and "length (suspended ?s) \<le> 1"
    using one_resolution_in_flight [of samplePortfolio 0 "[Change (js ''help''), Submit ?C]" ?C]
    by simp_all
  moreover have "length (suspended ?s) = 1"
    using calculation(2,3) by (cases "suspended ?s") simp_all
  moreover have "run samplePortfolio (mounted samplePortfolio 0) [Change (js ''help''), Submit ?C, Submit ?C]
      = handleSubmit samplePortfolio ?C ?s"
    by (simp add: run_def)
  ultimately show ?thesis
    using typing by simp
qed
lemma inputsNotBlank_mounted: "inputsNotBlank (welcomeCommand pd t0) (mounted pd t0)"
  by (simp add: inputsNotBlank_def mounted_def)

lemma inputsNotBlank_executeCommand:
  assumes "inputsNotBlank w s" and "trim input \<noteq> []"
  shows "inputsNotBlank w (executeCommand pd COMMANDS input s)"
  using assms
  by (auto simp add: inputsNotBlank_def executeCommand_def await_def Let_def split: property.splits)

lemma inputsNotBlank_continue:
  assumes "inputsNotBlank w s"
  shows "inputsNotBlank w (executeCommand_continue t s)"
proof (cases "suspended s")
  case Nil
  with assms show ?thesis
    by (simp add: executeCommand_continue_def)
next
  case (Cons p rest)
  obtain input out where p: "p = (input, out)"
    by (cases p)
  with assms Cons have "trim input \<noteq> []" and "\<forall>q \<in> set rest. trim (fst q) \<noteq> []"
    by (simp_all add: inputsNotBlank_def)
  with assms Cons p show ?thesis
    by (auto simp add: inputsNotBlank_def executeCommand_continue_def)
qed

lemma inputsNotBlank_step:
  assumes "inputsNotBlank w s"
  shows "inputsNotBlank w (step pd s ev)"
proof (cases ev)
  case (Change v)
  with assms show ?thesis
    by (simp add: inputsNotBlank_def)
next
  case (Submit COMMANDS)
  with assms show ?thesis
    by (simp add: handleSubmit_def inputsNotBlank_executeCommand)
next
  case (TimerFires t)
  with assms show ?thesis
    by (simp add: inputsNotBlank_continue)
qed

lemma inputsNotBlank_run: "inputsNotBlank w s \<Longrightarrow> inputsNotBlank w (run pd s evs)"
  unfolding run_def
  by (induction evs arbitrary: s) (simp_all add: inputsNotBlank_step)

text \<open>
  Claim C10: \<open>handleSubmit\<close> on a blank input line changes nothing (no call of
  \<open>executeCommand\<close>, so no \<open>isTyping\<close> and no entry), and therefore every entry of the
  history of a session, other than the welcome entry of the mount, has an input with a
  character that is not white space.
\<close>

theorem blank_input_is_not_dispatched:
  "(trim (currentInput s) = [] \<longrightarrow> handleSubmit pd COMMANDS s = s)
   \<and> ((\<forall>c \<in> set (currentInput s). isWhiteSpace c) \<longrightarrow> handleSubmit pd COMMANDS s = s)
   \<and> (\<forall>e \<in> set (commands (run pd (mounted pd t0) evs)).
         e = welcomeCommand pd t0 \<or> (\<exists>c \<in> set (entry_input e). \<not> isWhiteSpace c))"
proof -
  have "inputsNotBlank (welcomeCommand pd t0) (run pd (mounted pd t0) evs)"
    using inputsNotBlank_mounted by (rule inputsNotBlank_run)
  then have "\<forall>e \<in> set (commands (run pd (mounted pd t0) evs)).
         e = welcomeCommand pd t0 \<or> (\<exists>c \<in> set (entry_input e). \<not> isWhiteSpace c)"
    by (auto simp add: inputsNotBlank_def trim_Nil_iff)
  then show ?thesis
    by (simp add: handleSubmit_def trim_Nil_iff)
qed

theorem blank_input_is_not_dispatched_witness:
  "trim (js ''   '') = []
   \<and> run samplePortfolio (mounted samplePortfolio 0)
        [Change (js ''   ''), Submit (projr (generateCommands samplePortfolio 0))]
      = run samplePortfolio (mounted samplePortfolio 0) [Change (js ''   '')]
   \<and> \<lparr>entry_input = js ''pwd'', entry_output = Some [js ''/home/ada/portfolio''], entry_timestamp = 900\<rparr>
       \<in> set (commands (run samplePortfolio (mounted samplePortfolio 0)
            [Change (js ''   ''), Submit (projr (generateCommands samplePortfolio 0)),
             Change (js ''pwd''), Submit (projr (generateCommands samplePortfolio 0)), TimerFires 900]))
   \<and> (\<exists>c \<in> set (js ''pwd''). \<not> isWhiteSpace c)"
proof -
  let ?C = "projr (generateCommands samplePortfolio 0)"
  let ?s = "run samplePortfolio (mounted samplePortfolio 0) [Change (js ''   '')]"
  let ?e = "\<lparr>entry_input = js ''pwd'', entry_output = Some [js ''/home/ada/portfolio''], entry_timestamp = 900\<rparr>"
  let ?evs = "[Change (js ''   ''), Submit ?C, Change (js ''pwd''), Submit ?C, TimerFires 900]"
  have r: "generateCommands samplePortfolio 0 = Inr ?C"
    by (rule sample_registry)
  have blank: "trim (js ''   '') = []"
    by (simp add: string_eval)
  have cur: "currentInput ?s = js ''   ''"
    by (simp add: run_def mounted_def)
  have same: "handleSubmit samplePortfolio ?C ?s = ?s"
    using blank_input_is_not_dispatched [of ?s samplePortfolio ?C 0 ?evs] blank cur
    by simp
  have t: "trim (js ''pwd'') \<noteq> []" "commandOf (js ''pwd'') = js ''pwd''"
    by (simp_all add: string_eval)
  have n: "js ''pwd'' \<notin> {[], js ''clear'', js ''resume'', js ''download''}"
    by (simp add: js_def)
  have o: "cmd_output (reg_pwd ?C) = [js ''/home/ada/portfolio'']"
    using generateCommands_outputs(9) [OF r] by (simp add: samplePortfolio_def js_def)
  have "commands (run samplePortfolio (mounted samplePortfolio 0) ?evs) =
          [welcomeCommand samplePortfolio 0, ?e]"
    using blank t n o
    by (simp add: run_def mounted_def handleSubmit_def executeCommand_def await_def
        executeCommand_continue_def getProperty_names Let_def)
  then have mem: "?e \<in> set (commands (run samplePortfolio (mounted samplePortfolio 0) ?evs))"
    by simp
  have "?e \<noteq> welcomeCommand samplePortfolio 0"
    by (simp add: welcomeCommand_def js_def)
  with mem have "\<exists>c \<in> set (js ''pwd''). \<not> isWhiteSpace c"
    using blank_input_is_not_dispatched [of ?s samplePortfolio ?C 0 ?evs]
    by fastforce
  moreover have "run samplePortfolio (mounted samplePortfolio 0) [Change (js ''   ''), Submit ?C]
      = handleSubmit samplePortfolio ?C ?s"
    by (simp add: run_def)
  ultimately show ?thesis
    using blank same mem by simp
qed

section \<open>Properties of the wrapping\<close>























end
